theory Spec2Isabelle
  imports Complex_Main "HOL-Library.AList"
begin

section \<open>Python floats\<close>

text \<open>
  Balances, amounts and rates are Python \<^verbatim>\<open>float\<close>s, that is IEEE 754 binary64 values.
  A finite value is represented by the rational number it denotes; the two infinities
  and NaN are separate constructors. The sign of zero is not represented: the code only
  adds, subtracts, multiplies and compares, and \<^verbatim>\<open>-0.0 == 0.0\<close>.
  Every arithmetic operation computes the exact result and rounds it to the nearest
  binary64 value, ties to even, as the hardware does. The binary64 values among the
  rationals are those that the rounding leaves as they are; the results of the operations
  are always of that kind.
\<close>

datatype pyfloat = Fin rat | PInf | MInf | NaN

text \<open>\<^verbatim>\<open>int.bit_length\<close>: the number of binary digits of a natural number.\<close>

fun bit_length :: "nat \<Rightarrow> nat" where
  "bit_length n = (if n = 0 then 0 else Suc (bit_length (n div 2)))"

declare bit_length.simps [simp del]

text \<open>The power of two with an integer exponent.\<close>

definition pow2 :: "int \<Rightarrow> rat" where
  "pow2 e = (if 0 \<le> e then 2 ^ nat e else 1 / 2 ^ nat (- e))"

text \<open>For \<open>q > 0\<close>, the exponent \<open>e\<close> with \<open>2 ^ e \<le> q < 2 ^ (e + 1)\<close>.\<close>

definition ilog2 :: "rat \<Rightarrow> int" where
  "ilog2 q = (if 1 \<le> q then int (bit_length (nat \<lfloor>q\<rfloor>)) - 1
              else - int (bit_length (nat (\<lceil>1 / q\<rceil> - 1))))"

text \<open>Rounding to the nearest integer, a tie going to the even neighbour.\<close>

definition round_half_even :: "rat \<Rightarrow> int" where
  "round_half_even r =
     (let f = \<lfloor>r\<rfloor>; d = r - of_int f
      in if d < 1 / 2 then f
         else if 1 / 2 < d then f + 1
         else if even f then f else f + 1)"

text \<open>
  Rounding of a positive rational to binary64: 53 significant bits, the unit in the last
  place never below \<open>2 ^ -1074\<close> (subnormal numbers). The result is the rounded magnitude;
  a magnitude of \<open>2 ^ 1024\<close> or more is an overflow.
\<close>

definition round_mag :: "rat \<Rightarrow> rat" where
  "round_mag a =
     (let e = max (ilog2 a - 52) (- 1074)
      in of_int (round_half_even (a / pow2 e)) * pow2 e)"

definition round64 :: "rat \<Rightarrow> pyfloat" where
  "round64 q =
     (if q = 0 then Fin 0
      else if 0 < q then (if 2 ^ 1024 \<le> round_mag q then PInf else Fin (round_mag q))
      else (if 2 ^ 1024 \<le> round_mag (- q) then MInf else Fin (- round_mag (- q))))"

text \<open>\<^verbatim>\<open>a + b\<close>\<close>

fun fadd :: "pyfloat \<Rightarrow> pyfloat \<Rightarrow> pyfloat" where
  "fadd (Fin a) (Fin b) = round64 (a + b)"
| "fadd NaN _ = NaN"
| "fadd _ NaN = NaN"
| "fadd PInf MInf = NaN"
| "fadd MInf PInf = NaN"
| "fadd PInf _ = PInf"
| "fadd MInf _ = MInf"
| "fadd (Fin a) PInf = PInf"
| "fadd (Fin a) MInf = MInf"

text \<open>\<^verbatim>\<open>a - b\<close>\<close>

fun fsub :: "pyfloat \<Rightarrow> pyfloat \<Rightarrow> pyfloat" where
  "fsub (Fin a) (Fin b) = round64 (a - b)"
| "fsub NaN _ = NaN"
| "fsub _ NaN = NaN"
| "fsub PInf PInf = NaN"
| "fsub MInf MInf = NaN"
| "fsub PInf _ = PInf"
| "fsub MInf _ = MInf"
| "fsub (Fin a) PInf = MInf"
| "fsub (Fin a) MInf = PInf"

text \<open>\<^verbatim>\<open>a * b\<close>: an infinity times zero is NaN, otherwise the signs multiply.\<close>

fun fsign :: "pyfloat \<Rightarrow> int" where
  "fsign (Fin a) = (if a < 0 then - 1 else if a = 0 then 0 else 1)"
| "fsign PInf = 1"
| "fsign MInf = - 1"
| "fsign NaN = 0"

fun fmul :: "pyfloat \<Rightarrow> pyfloat \<Rightarrow> pyfloat" where
  "fmul (Fin a) (Fin b) = round64 (a * b)"
| "fmul NaN _ = NaN"
| "fmul _ NaN = NaN"
| "fmul x y =
     (if fsign x * fsign y = 0 then NaN
      else if 0 < fsign x * fsign y then PInf else MInf)"

text \<open>\<^verbatim>\<open>a < b\<close> and \<^verbatim>\<open>a <= b\<close>: every comparison with NaN is false.\<close>

fun flt :: "pyfloat \<Rightarrow> pyfloat \<Rightarrow> bool" where
  "flt (Fin a) (Fin b) = (a < b)"
| "flt NaN _ = False"
| "flt _ NaN = False"
| "flt PInf _ = False"
| "flt _ MInf = False"
| "flt MInf _ = True"
| "flt (Fin a) PInf = True"

fun fle :: "pyfloat \<Rightarrow> pyfloat \<Rightarrow> bool" where
  "fle (Fin a) (Fin b) = (a \<le> b)"
| "fle NaN _ = False"
| "fle _ NaN = False"
| "fle MInf _ = True"
| "fle _ PInf = True"
| "fle PInf _ = False"
| "fle (Fin a) MInf = False"

section \<open>Exceptions\<close>

text \<open>
  The exceptions the modelled code raises: \<^verbatim>\<open>ValueError\<close>,
  \<^verbatim>\<open>InsufficientFundsError(available, required, code)\<close> of \<^verbatim>\<open>core/exceptions.py\<close>,
  and \<^verbatim>\<open>AttributeError\<close> for a method call on \<^verbatim>\<open>None\<close>.
  A method that mutates its object returns what it returned or raised together with the
  object as the call left it.
\<close>

datatype error = ValueError | InsufficientFundsError pyfloat pyfloat string | AttributeError

section \<open>\<^verbatim>\<open>core/models.py\<close>: Wallet\<close>

record Wallet =
  currency_code :: string
  balance :: pyfloat

text \<open>\<^verbatim>\<open>Wallet._validate_balance\<close>; the arguments are floats, so the type check passes.\<close>

definition validate_balance :: "pyfloat \<Rightarrow> error + pyfloat" where
  "validate_balance amount = (if flt amount (Fin 0) then Inl ValueError else Inr amount)"

text \<open>\<^verbatim>\<open>Wallet.__init__\<close>\<close>

definition Wallet_init :: "string \<Rightarrow> pyfloat \<Rightarrow> error + Wallet" where
  "Wallet_init code b =
     (case validate_balance b of
        Inl e \<Rightarrow> Inl e
      | Inr v \<Rightarrow> Inr \<lparr>currency_code = code, balance = v\<rparr>)"

text \<open>\<^verbatim>\<open>Wallet.deposit\<close>: \<^verbatim>\<open>self.balance += amount\<close> goes through the validating setter.\<close>

definition deposit :: "Wallet \<Rightarrow> pyfloat \<Rightarrow> (error + unit) \<times> Wallet" where
  "deposit w amount =
     (if fle amount (Fin 0) then (Inl ValueError, w)
      else case validate_balance (fadd (balance w) amount) of
             Inl e \<Rightarrow> (Inl e, w)
           | Inr v \<Rightarrow> (Inr (), w\<lparr>balance := v\<rparr>))"

text \<open>\<^verbatim>\<open>Wallet.withdraw\<close>\<close>

definition withdraw :: "Wallet \<Rightarrow> pyfloat \<Rightarrow> (error + bool) \<times> Wallet" where
  "withdraw w amount =
     (if fle amount (Fin 0) then (Inl ValueError, w)
      else if flt (balance w) amount
      then (Inl (InsufficientFundsError (balance w) amount (currency_code w)), w)
      else case validate_balance (fsub (balance w) amount) of
             Inl e \<Rightarrow> (Inl e, w)
           | Inr v \<Rightarrow> (Inr True, w\<lparr>balance := v\<rparr>))"

text \<open>
  A sequence of calls on one wallet. A call that raises leaves the wallet to the next
  call as it is.
\<close>

datatype call = Deposit pyfloat | Withdraw pyfloat

fun amount_of :: "call \<Rightarrow> pyfloat" where
  "amount_of (Deposit a) = a"
| "amount_of (Withdraw a) = a"

fun is_finite :: "pyfloat \<Rightarrow> bool" where
  "is_finite (Fin a) = True"
| "is_finite _ = False"

fun call_wallet :: "Wallet \<Rightarrow> call \<Rightarrow> error option \<times> Wallet" where
  "call_wallet w (Deposit a) =
     (case deposit w a of (Inl e, w') \<Rightarrow> (Some e, w') | (Inr _, w') \<Rightarrow> (None, w'))"
| "call_wallet w (Withdraw a) =
     (case withdraw w a of (Inl e, w') \<Rightarrow> (Some e, w') | (Inr _, w') \<Rightarrow> (None, w'))"

fun run_calls :: "Wallet \<Rightarrow> call list \<Rightarrow> Wallet" where
  "run_calls w [] = w"
| "run_calls w (c # cs) = run_calls (snd (call_wallet w c)) cs"

fun is_rejection :: "error \<Rightarrow> bool" where
  "is_rejection ValueError = True"
| "is_rejection (InsufficientFundsError _ _ _) = True"
| "is_rejection AttributeError = False"


section \<open>\<^verbatim>\<open>core/models.py\<close>: Portfolio\<close>

text \<open>
  A Python \<^verbatim>\<open>dict\<close> is an association list with distinct keys, in insertion order:
  \<^const>\<open>map_of\<close> reads a key, \<^const>\<open>AList.update\<close> overwrites it in place or appends it.

  A stored portfolio is the dictionary \<^verbatim>\<open>{"user_id": .., "wallets": {code: {"balance": ..}}}\<close>
  of \<^verbatim>\<open>portfolios.json\<close>. Of a stored wallet only \<^verbatim>\<open>"balance"\<close> is read;
  \<^verbatim>\<open>"currency_code"\<close> is written equal to the key.
\<close>

record portfolio_data =
  user_id :: int
  wallets :: "(string \<times> pyfloat) list"

record Portfolio =
  Portfolio_user_id :: int
  Portfolio_wallets :: "(string \<times> Wallet) list"

text \<open>The dictionary comprehension of \<^verbatim>\<open>Portfolio.from_dict\<close>, with \<^verbatim>\<open>Wallet.from_dict\<close>.\<close>

fun wallets_from_dict :: "(string \<times> pyfloat) list \<Rightarrow> error + (string \<times> Wallet) list" where
  "wallets_from_dict [] = Inr []"
| "wallets_from_dict ((code, b) # rest) =
     (case Wallet_init code b of
        Inl e \<Rightarrow> Inl e
      | Inr w \<Rightarrow>
          (case wallets_from_dict rest of
             Inl e \<Rightarrow> Inl e
           | Inr ws \<Rightarrow> Inr ((code, w) # ws)))"

definition Portfolio_from_dict :: "portfolio_data \<Rightarrow> error + Portfolio" where
  "Portfolio_from_dict d =
     (case wallets_from_dict (wallets d) of
        Inl e \<Rightarrow> Inl e
      | Inr ws \<Rightarrow> Inr \<lparr>Portfolio_user_id = user_id d, Portfolio_wallets = ws\<rparr>)"

definition Portfolio_to_dict :: "Portfolio \<Rightarrow> portfolio_data" where
  "Portfolio_to_dict p =
     \<lparr>user_id = Portfolio_user_id p,
      wallets = map (\<lambda>(code, w). (code, balance w)) (Portfolio_wallets p)\<rparr>"

text \<open>\<^verbatim>\<open>Portfolio.add_currency\<close>: \<^verbatim>\<open>Wallet(currency_code)\<close> has the balance \<^verbatim>\<open>0.0\<close>.\<close>

definition add_currency :: "Portfolio \<Rightarrow> string \<Rightarrow> (error + unit) \<times> Portfolio" where
  "add_currency p code =
     (if map_of (Portfolio_wallets p) code \<noteq> None then (Inl ValueError, p)
      else case Wallet_init code (Fin 0) of
             Inl e \<Rightarrow> (Inl e, p)
           | Inr w \<Rightarrow>
               (Inr (), p\<lparr>Portfolio_wallets := AList.update code w (Portfolio_wallets p)\<rparr>))"

definition get_wallet :: "Portfolio \<Rightarrow> string \<Rightarrow> Wallet option" where
  "get_wallet p code = map_of (Portfolio_wallets p) code"

text \<open>
  A wallet obtained from \<^const>\<open>get_wallet\<close> is the object held by the dictionary: a
  mutation through it is a mutation of the portfolio. The model writes the mutated wallet
  back under its key.
\<close>

definition put_wallet :: "Portfolio \<Rightarrow> string \<Rightarrow> Wallet \<Rightarrow> Portfolio" where
  "put_wallet p code w = p\<lparr>Portfolio_wallets := AList.update code w (Portfolio_wallets p)\<rparr>"

section \<open>\<^verbatim>\<open>core/usecases.py\<close>\<close>

text \<open>
  An entry of \<^verbatim>\<open>rates.json\<close>: \<^verbatim>\<open>{"rate": .., "updated_at": ..}\<close>. The timestamp is an
  ISO string; the model keeps what \<^verbatim>\<open>datetime.fromisoformat\<close> makes of it, in
  microseconds, and \<open>None\<close> where it raises \<^verbatim>\<open>ValueError\<close>. The code writes timestamps
  without a UTC offset only, and only those are modelled.
\<close>

record rate_entry =
  rate :: pyfloat
  updated_at :: "int option"

type_synonym rates = "(string \<times> rate_entry) list"

text \<open>What a function returned or raised.\<close>

datatype 'a outcome = Returned 'a | Raised error

text \<open>
  What a function did besides returning: an assignment to \<^verbatim>\<open>portfolios_data[i]\<close>, a call of
  the rate source \<^verbatim>\<open>fetch_rate_from_parser\<close>, a write of \<^verbatim>\<open>data/rates.json\<close>.
\<close>

datatype effect = StoreWrite nat | SourceCall string string | SaveRates rates

definition is_store_write :: "effect \<Rightarrow> bool" where
  "is_store_write e = (case e of StoreWrite _ \<Rightarrow> True | _ \<Rightarrow> False)"

fun show_portfolio :: "portfolio_data list \<Rightarrow> int \<Rightarrow> error + Portfolio option" where
  "show_portfolio [] uid = Inr None"
| "show_portfolio (d # ds) uid =
     (if user_id d = uid
      then (case Portfolio_from_dict d of Inl e \<Rightarrow> Inl e | Inr p \<Rightarrow> Inr (Some p))
      else show_portfolio ds uid)"

definition get_rate :: "rates \<Rightarrow> string \<Rightarrow> pyfloat option" where
  "get_rate rates_data currency =
     (case map_of rates_data (currency @ ''_USD'') of
        Some entry \<Rightarrow> Some (rate entry)
      | None \<Rightarrow> None)"

text \<open>
  The loop that ends \<^verbatim>\<open>buy_currency\<close> and \<^verbatim>\<open>sell_currency\<close>: the first record of the user
  is replaced and the loop stops. \<open>i\<close> is the index of the head of the list.
\<close>

fun store_portfolio ::
  "portfolio_data list \<Rightarrow> int \<Rightarrow> portfolio_data \<Rightarrow> nat \<Rightarrow> portfolio_data list \<times> effect list" where
  "store_portfolio [] uid new i = ([], [])"
| "store_portfolio (d # ds) uid new i =
     (if user_id d = uid then (new # ds, [StoreWrite i])
      else case store_portfolio ds uid new (Suc i) of (ds', es) \<Rightarrow> (d # ds', es))"

text \<open>
  \<^verbatim>\<open>buy_currency\<close> and \<^verbatim>\<open>sell_currency\<close> return what the call returned or raised, the two
  collections \<^verbatim>\<open>portfolios_data\<close> and \<^verbatim>\<open>rates_data\<close> as the call left them, and the
  effects in order. The \<^verbatim>\<open>Portfolio\<close> and its wallets are local objects.
\<close>

definition buy_currency ::
  "portfolio_data list \<Rightarrow> rates \<Rightarrow> int \<Rightarrow> string \<Rightarrow> pyfloat
     \<Rightarrow> bool outcome \<times> portfolio_data list \<times> rates \<times> effect list" where
  "buy_currency portfolios_data rates_data uid currency amount =
     (case show_portfolio portfolios_data uid of
        Inl e \<Rightarrow> (Raised e, portfolios_data, rates_data, [])
      | Inr None \<Rightarrow> (Returned False, portfolios_data, rates_data, [])
      | Inr (Some portfolio) \<Rightarrow>
     (case map_of rates_data (currency @ ''_USD'') of
        None \<Rightarrow> (Returned False, portfolios_data, rates_data, [])
      | Some entry \<Rightarrow>
     (let usd_cost = fmul amount (rate entry) in
      case get_wallet portfolio ''USD'' of
        None \<Rightarrow> (Returned False, portfolios_data, rates_data, [])
      | Some usd_wallet \<Rightarrow>
     (if flt (balance usd_wallet) usd_cost
      then (Returned False, portfolios_data, rates_data, [])
      else
     (case withdraw usd_wallet usd_cost of
        (Inl e, _) \<Rightarrow> (Raised e, portfolios_data, rates_data, [])
      | (Inr _, usd_wallet') \<Rightarrow>
     (let p1 = put_wallet portfolio ''USD'' usd_wallet' in
      case (if map_of (Portfolio_wallets p1) currency = None
            then add_currency p1 currency else (Inr (), p1)) of
        (Inl e, _) \<Rightarrow> (Raised e, portfolios_data, rates_data, [])
      | (Inr _, p2) \<Rightarrow>
     (case get_wallet p2 currency of
        None \<Rightarrow> (Raised AttributeError, portfolios_data, rates_data, [])
      | Some target_wallet \<Rightarrow>
     (case deposit target_wallet amount of
        (Inl e, _) \<Rightarrow> (Raised e, portfolios_data, rates_data, [])
      | (Inr _, target_wallet') \<Rightarrow>
     (let p3 = put_wallet p2 currency target_wallet' in
      case store_portfolio portfolios_data uid (Portfolio_to_dict p3) 0 of
        (portfolios_data', es) \<Rightarrow>
          (Returned True, portfolios_data', rates_data, es))))))))))"

definition sell_currency ::
  "portfolio_data list \<Rightarrow> rates \<Rightarrow> int \<Rightarrow> string \<Rightarrow> pyfloat
     \<Rightarrow> bool outcome \<times> portfolio_data list \<times> rates \<times> effect list" where
  "sell_currency portfolios_data rates_data uid currency amount =
     (case show_portfolio portfolios_data uid of
        Inl e \<Rightarrow> (Raised e, portfolios_data, rates_data, [])
      | Inr None \<Rightarrow> (Returned False, portfolios_data, rates_data, [])
      | Inr (Some portfolio) \<Rightarrow>
     (case get_wallet portfolio currency of
        None \<Rightarrow> (Returned False, portfolios_data, rates_data, [])
      | Some wallet \<Rightarrow>
     (if flt (balance wallet) amount
      then (Returned False, portfolios_data, rates_data, [])
      else
     (case map_of rates_data (currency @ ''_USD'') of
        None \<Rightarrow> (Returned False, portfolios_data, rates_data, [])
      | Some entry \<Rightarrow>
     (let usd_revenue = fmul amount (rate entry) in
      case withdraw wallet amount of
        (Inl e, _) \<Rightarrow> (Raised e, portfolios_data, rates_data, [])
      | (Inr _, wallet') \<Rightarrow>
     (let p1 = put_wallet portfolio currency wallet' in
      case (case get_wallet p1 ''USD'' of
              Some usd_wallet \<Rightarrow> (Inr (), p1)
            | None \<Rightarrow> add_currency p1 ''USD'') of
        (Inl e, _) \<Rightarrow> (Raised e, portfolios_data, rates_data, [])
      | (Inr _, p2) \<Rightarrow>
     (case get_wallet p2 ''USD'' of
        None \<Rightarrow> (Raised AttributeError, portfolios_data, rates_data, [])
      | Some usd_wallet \<Rightarrow>
     (case deposit usd_wallet usd_revenue of
        (Inl e, _) \<Rightarrow> (Raised e, portfolios_data, rates_data, [])
      | (Inr _, usd_wallet') \<Rightarrow>
     (let p3 = put_wallet p2 ''USD'' usd_wallet' in
      case store_portfolio portfolios_data uid (Portfolio_to_dict p3) 0 of
        (portfolios_data', es) \<Rightarrow>
          (Returned True, portfolios_data', rates_data, es))))))))))"

text \<open>
  The balance stored for a user and a currency: the \<^verbatim>\<open>"balance"\<close> of the wallet in the first
  record of the user, the one \<^const>\<open>show_portfolio\<close> loads.
\<close>

fun stored_balance :: "portfolio_data list \<Rightarrow> int \<Rightarrow> string \<Rightarrow> pyfloat option" where
  "stored_balance [] uid code = None"
| "stored_balance (d # ds) uid code =
     (if user_id d = uid then map_of (wallets d) code else stored_balance ds uid code)"


section \<open>\<^verbatim>\<open>cli/interface.py\<close>: the rate cache\<close>

text \<open>
  Times are \<^verbatim>\<open>datetime\<close> values without a time zone, counted in microseconds (the
  resolution of \<^verbatim>\<open>datetime\<close>); \<^verbatim>\<open>timedelta(minutes=m)\<close> is \<open>m * 60000000\<close>. The clock
  is read once in \<^verbatim>\<open>is_rate_fresh\<close> and once in \<^verbatim>\<open>fetch_rate_from_parser\<close>; each reading
  is an argument.
\<close>

definition timedelta_minutes :: "int \<Rightarrow> int" where
  "timedelta_minutes m = m * 60000000"

definition is_rate_fresh :: "int option \<Rightarrow> int \<Rightarrow> int \<Rightarrow> bool" where
  "is_rate_fresh updated_at_str now max_age_minutes =
     (case updated_at_str of
        None \<Rightarrow> False
      | Some t \<Rightarrow> now - t \<le> timedelta_minutes max_age_minutes)"

text \<open>A float literal of the source denotes the binary64 value nearest to it.\<close>

definition mock_rates :: "(string \<times> pyfloat) list" where
  "mock_rates =
     [(''USD_BTC'', round64 (1685 / 100000000)),
      (''BTC_USD'', round64 (5933721 / 100)),
      (''USD_ETH'', round64 (268 / 1000000)),
      (''ETH_USD'', round64 (373134 / 100))]"

text \<open>\<^verbatim>\<open>fetch_rate_from_parser\<close>, the rate source; \<open>now\<close> is its reading of the clock.\<close>

definition fetch_rate_from_parser :: "int \<Rightarrow> string \<Rightarrow> string \<Rightarrow> rate_entry option" where
  "fetch_rate_from_parser now from_curr to_curr =
     (case map_of mock_rates (from_curr @ ''_'' @ to_curr) of
        Some r \<Rightarrow> Some \<lparr>rate = r, updated_at = Some now\<rparr>
      | None \<Rightarrow> None)"

text \<open>
  \<^verbatim>\<open>get_exchange_rate\<close> returns the entry or \<^verbatim>\<open>None\<close>, \<^verbatim>\<open>rates_data\<close> as the call left it,
  and the effects in order. \<open>now\<close> is the clock as \<^verbatim>\<open>is_rate_fresh\<close> reads it, \<open>now'\<close> as
  the rate source reads it.
\<close>

definition get_exchange_rate ::
  "rates \<Rightarrow> int \<Rightarrow> int \<Rightarrow> string \<Rightarrow> string \<Rightarrow> rate_entry option \<times> rates \<times> effect list" where
  "get_exchange_rate rates_data now now' from_curr to_curr =
     (let key = from_curr @ ''_'' @ to_curr;
          cached = (case map_of rates_data key of
                      Some rate_entry \<Rightarrow>
                        if is_rate_fresh (updated_at rate_entry) now 5
                        then Some rate_entry else None
                    | None \<Rightarrow> None)
      in case cached of
           Some rate_entry \<Rightarrow> (Some rate_entry, rates_data, [])
         | None \<Rightarrow>
             (case fetch_rate_from_parser now' from_curr to_curr of
                Some new_rate \<Rightarrow>
                  (Some new_rate, AList.update key new_rate rates_data,
                   [SourceCall from_curr to_curr,
                    SaveRates (AList.update key new_rate rates_data)])
              | None \<Rightarrow> (None, rates_data, [SourceCall from_curr to_curr])))"

section \<open>\<^verbatim>\<open>core/currencies.py\<close>: currency codes\<close>

text \<open>
  Strings are taken to be ASCII. \<^verbatim>\<open>str.isupper\<close> is true when the string has a cased
  character and none of its cased characters is lowercase; the cased ASCII characters are
  the letters.
\<close>

definition ascii_uppercase :: string where
  "ascii_uppercase = ''ABCDEFGHIJKLMNOPQRSTUVWXYZ''"

definition ascii_lowercase :: string where
  "ascii_lowercase = ''abcdefghijklmnopqrstuvwxyz''"

definition isupper :: "string \<Rightarrow> bool" where
  "isupper s =
     (list_ex (\<lambda>c. c \<in> set ascii_uppercase) s \<and> list_all (\<lambda>c. c \<notin> set ascii_lowercase) s)"

record Currency =
  name :: string
  code :: string

text \<open>\<^verbatim>\<open>Currency.__init__\<close>, which every currency class runs first.\<close>

definition Currency_init :: "string \<Rightarrow> string \<Rightarrow> error + Currency" where
  "Currency_init nm cd =
     (if nm = [] then Inl ValueError
      else if cd = [] \<or> length cd < 2 \<or> length cd > 5 \<or> CHR '' '' \<in> set cd \<or> \<not> isupper cd
      then Inl ValueError
      else Inr \<lparr>name = nm, code = cd\<rparr>)"

text \<open>The rule as the specification words it: the strings matching \<^verbatim>\<open>^[A-Z]{2,5}$\<close>.\<close>

definition spec_valid_code :: "string \<Rightarrow> bool" where
  "spec_valid_code s =
     (2 \<le> length s \<and> length s \<le> 5 \<and> list_all (\<lambda>c. c \<in> set ascii_uppercase) s)"


section \<open>Evaluating the rounding on numerals\<close>

lemma bit_length_numeral:
  "bit_length 0 = 0" "bit_length (Suc 0) = 1" "bit_length 1 = 1"
  "bit_length (numeral Num.One) = 1"
  "bit_length (numeral (Num.Bit0 k)) = Suc (bit_length (numeral k))"
  "bit_length (numeral (Num.Bit1 k)) = Suc (bit_length (numeral k))"
  by (subst bit_length.simps, simp)+

lemma floor_rat_numeral:
  "\<lfloor>(numeral a / numeral b :: rat)\<rfloor> = numeral a div numeral b"
  using floor_divide_of_int_eq [of "numeral a" "numeral b", where ?'a = rat] by simp

lemma ceiling_rat_numeral:
  "\<lceil>(numeral a / numeral b :: rat)\<rceil> = - (- numeral a div numeral b)"
  using ceiling_divide_eq_div [of "numeral a" "numeral b"]
  by (simp add: ceiling_def)

lemmas eval64 =
  round64_def round_mag_def ilog2_def pow2_def round_half_even_def Let_def
  bit_length_numeral floor_rat_numeral ceiling_rat_numeral

text \<open>
  The literals \<^verbatim>\<open>0.1\<close> and \<^verbatim>\<open>0.2\<close> and the sum \<^verbatim>\<open>0.1 + 0.2 = 0.30000000000000004\<close>, as
  \<^verbatim>\<open>float.as_integer_ratio\<close> gives them; an overflow.
\<close>

lemma round64_examples:
  "round64 (1 / 10) = Fin (3602879701896397 / 36028797018963968)"
  "round64 (2 / 10) = Fin (3602879701896397 / 18014398509481984)"
  "fadd (Fin (3602879701896397 / 36028797018963968)) (Fin (3602879701896397 / 18014398509481984))
     = Fin (1351079888211149 / 4503599627370496)"
  "fadd (Fin (2 ^ 1023)) (Fin (2 ^ 1023)) = PInf"
  by (simp_all add: eval64)

section \<open>Rounding keeps the sign\<close>

lemma round_half_even_nonneg: "0 \<le> r \<Longrightarrow> 0 \<le> round_half_even r"
  by (auto simp: round_half_even_def Let_def)

lemma pow2_pos: "0 < pow2 e"
  by (simp add: pow2_def)

lemma round_mag_nonneg: "0 \<le> a \<Longrightarrow> 0 \<le> round_mag a"
  using pow2_pos by (simp add: round_mag_def Let_def round_half_even_nonneg less_imp_le)

lemma round64_nonneg: "0 \<le> q \<Longrightarrow> fle (Fin 0) (round64 q)"
  by (simp add: round64_def round_mag_nonneg)

lemma fle_not_flt: "fle (Fin 0) x \<Longrightarrow> \<not> flt x (Fin 0)"
  by (cases x) auto

section \<open>The wallet invariant\<close>

lemma deposit_finite:
  assumes "fle (Fin 0) (balance w)" "is_finite a"
  shows "(deposit w a = (Inl ValueError, w) \<and> fle a (Fin 0)) \<or>
         (deposit w a = (Inr (), w\<lparr>balance := fadd (balance w) a\<rparr>)
           \<and> fle (Fin 0) (fadd (balance w) a))"
proof (cases "fle a (Fin 0)")
  case True
  then show ?thesis by (simp add: deposit_def)
next
  case False
  from assms(2) obtain x where a: "a = Fin x" by (cases a) auto
  with False have x: "0 < x" by simp
  have nn: "fle (Fin 0) (fadd (balance w) a)"
  proof (cases "balance w")
    case (Fin b)
    with assms(1) have "0 \<le> b" by simp
    with x have "0 \<le> b + x" by simp
    then show ?thesis using Fin a by (simp add: round64_nonneg)
  qed (use assms(1) a in auto)
  then show ?thesis using False
    by (simp add: deposit_def validate_balance_def fle_not_flt)
qed

lemma withdraw_finite:
  assumes "fle (Fin 0) (balance w)" "is_finite a"
  shows "(withdraw w a = (Inl ValueError, w) \<and> fle a (Fin 0)) \<or>
         (withdraw w a = (Inl (InsufficientFundsError (balance w) a (currency_code w)), w)
           \<and> flt (balance w) a) \<or>
         (withdraw w a = (Inr True, w\<lparr>balance := fsub (balance w) a\<rparr>)
           \<and> fle (Fin 0) (fsub (balance w) a))"
proof (cases "fle a (Fin 0) \<or> flt (balance w) a")
  case True
  then show ?thesis by (auto simp: withdraw_def)
next
  case False
  from assms(2) obtain x where a: "a = Fin x" by (cases a) auto
  have nn: "fle (Fin 0) (fsub (balance w) a)"
  proof (cases "balance w")
    case (Fin b)
    with False a have "0 \<le> b - x" by simp
    then show ?thesis using Fin a by (simp add: round64_nonneg)
  qed (use assms(1) a in auto)
  then show ?thesis using False
    by (simp add: withdraw_def validate_balance_def fle_not_flt)
qed

lemma call_wallet_finite:
  assumes "fle (Fin 0) (balance w)" "is_finite (amount_of c)"
  shows "fle (Fin 0) (balance (snd (call_wallet w c))) \<and>
         (case fst (call_wallet w c) of
            None \<Rightarrow>
              balance (snd (call_wallet w c)) =
                (case c of Deposit a \<Rightarrow> fadd (balance w) a | Withdraw a \<Rightarrow> fsub (balance w) a)
          | Some e \<Rightarrow> is_rejection e \<and> snd (call_wallet w c) = w)"
proof (cases c)
  case (Deposit a)
  with assms deposit_finite [of w a] show ?thesis by auto
next
  case (Withdraw a)
  with assms withdraw_finite [of w a] show ?thesis by auto
qed

lemma run_calls_snoc: "run_calls w (cs @ [c]) = snd (call_wallet (run_calls w cs) c)"
  by (induction cs arbitrary: w) simp_all

lemma run_calls_nonneg:
  "fle (Fin 0) (balance w) \<Longrightarrow> \<forall>c\<in>set cs. is_finite (amount_of c)
     \<Longrightarrow> fle (Fin 0) (balance (run_calls w cs))"
proof (induction cs arbitrary: w)
  case Nil
  then show ?case by simp
next
  case (Cons c cs)
  from Cons.prems call_wallet_finite [of w c]
  have "fle (Fin 0) (balance (snd (call_wallet w c)))" by simp
  with Cons show ?case by simp
qed

text \<open>
  For amounts that are finite numbers the invariant holds. Take a wallet whose balance is
  non-negative and any sequence of \<^verbatim>\<open>deposit\<close> and \<^verbatim>\<open>withdraw\<close> calls with finite amounts.
  After every call the balance is non-negative. A call that succeeds sets the balance to
  the float sum or difference of the balance and the amount, with no clamping; a call
  that fails raises \<^verbatim>\<open>ValueError\<close> or \<^verbatim>\<open>InsufficientFundsError\<close> and leaves the wallet as it
  was.
\<close>

lemma wallet_calls_nonneg:
  assumes "fle (Fin 0) (balance w)" and "\<forall>c\<in>set cs. is_finite (amount_of c)"
  shows "\<forall>i<length cs.
           fle (Fin 0) (balance (run_calls w (take (Suc i) cs))) \<and>
           (case fst (call_wallet (run_calls w (take i cs)) (cs ! i)) of
              None \<Rightarrow>
                balance (run_calls w (take (Suc i) cs)) =
                  (case cs ! i of
                     Deposit a \<Rightarrow> fadd (balance (run_calls w (take i cs))) a
                   | Withdraw a \<Rightarrow> fsub (balance (run_calls w (take i cs))) a)
            | Some e \<Rightarrow>
                is_rejection e \<and> run_calls w (take (Suc i) cs) = run_calls w (take i cs))"
proof (intro allI impI)
  fix i assume i: "i < length cs"
  let ?before = "run_calls w (take i cs)"
  have "\<forall>c\<in>set (take i cs). is_finite (amount_of c)"
    using assms(2) by (meson in_set_takeD)
  with assms(1) have before: "fle (Fin 0) (balance ?before)" by (rule run_calls_nonneg)
  have fin: "is_finite (amount_of (cs ! i))" using assms(2) i by simp
  have step: "run_calls w (take (Suc i) cs) = snd (call_wallet ?before (cs ! i))"
    using i by (simp add: take_Suc_conv_app_nth run_calls_snoc)
  from call_wallet_finite [OF before fin] show
    "fle (Fin 0) (balance (run_calls w (take (Suc i) cs))) \<and>
           (case fst (call_wallet (run_calls w (take i cs)) (cs ! i)) of
              None \<Rightarrow>
                balance (run_calls w (take (Suc i) cs)) =
                  (case cs ! i of
                     Deposit a \<Rightarrow> fadd (balance (run_calls w (take i cs))) a
                   | Withdraw a \<Rightarrow> fsub (balance (run_calls w (take i cs))) a)
            | Some e \<Rightarrow>
                is_rejection e \<and> run_calls w (take (Suc i) cs) = run_calls w (take i cs))"
    unfolding step .
qed

text \<open>An instance: a deposit of 2 on a balance of 1, then a withdrawal of 5, which is rejected.\<close>

lemma wallet_calls_nonneg_example:
  "fle (Fin 0) (balance \<lparr>currency_code = ''USD'', balance = Fin 1\<rparr>) \<and>
   is_finite (amount_of (Deposit (Fin 2))) \<and> is_finite (amount_of (Withdraw (Fin 5))) \<and>
   call_wallet \<lparr>currency_code = ''USD'', balance = Fin 1\<rparr> (Deposit (Fin 2))
     = (None, \<lparr>currency_code = ''USD'', balance = Fin 3\<rparr>) \<and>
   call_wallet \<lparr>currency_code = ''USD'', balance = Fin 3\<rparr> (Withdraw (Fin 5))
     = (Some (InsufficientFundsError (Fin 3) (Fin 5) ''USD''),
        \<lparr>currency_code = ''USD'', balance = Fin 3\<rparr>) \<and>
   fle (Fin 0) (balance (run_calls \<lparr>currency_code = ''USD'', balance = Fin 1\<rparr>
     (take (Suc 0) [Deposit (Fin 2), Withdraw (Fin 5)]))) \<and>
   fle (Fin 0) (balance (run_calls \<lparr>currency_code = ''USD'', balance = Fin 1\<rparr>
     (take (Suc 1) [Deposit (Fin 2), Withdraw (Fin 5)])))"
proof -
  let ?w = "\<lparr>currency_code = ''USD'', balance = Fin 1\<rparr>"
  let ?cs = "[Deposit (Fin 2), Withdraw (Fin 5)]"
  have h1: "fle (Fin 0) (balance ?w)" by simp
  have h2: "\<forall>c\<in>set ?cs. is_finite (amount_of c)" by simp
  have c1: "call_wallet ?w (Deposit (Fin 2)) = (None, \<lparr>currency_code = ''USD'', balance = Fin 3\<rparr>)"
    by (simp add: deposit_def validate_balance_def eval64)
  have c2: "call_wallet \<lparr>currency_code = ''USD'', balance = Fin 3\<rparr> (Withdraw (Fin 5))
     = (Some (InsufficientFundsError (Fin 3) (Fin 5) ''USD''),
        \<lparr>currency_code = ''USD'', balance = Fin 3\<rparr>)"
    by (simp add: withdraw_def)
  have l0: "0 < length ?cs" and l1: "1 < length ?cs" by simp_all
  note inv = wallet_calls_nonneg [OF h1 h2, rule_format]
  from inv [OF l0] inv [OF l1]
  have "fle (Fin 0) (balance (run_calls ?w (take (Suc 0) ?cs))) \<and>
        fle (Fin 0) (balance (run_calls ?w (take (Suc 1) ?cs)))"
    by blast
  moreover have "is_finite (amount_of (Deposit (Fin 2))) \<and> is_finite (amount_of (Withdraw (Fin 5)))"
    by simp
  ultimately show ?thesis using h1 c1 c2 by blast
qed

text \<open>
  Claim C3 says that the balance is non-negative after every call of \<^verbatim>\<open>deposit\<close> or
  \<^verbatim>\<open>withdraw\<close>, a call being rejected otherwise. The code means to enforce it: \<^verbatim>\<open>deposit\<close>
  rejects an amount that is not a positive number, and every assignment to the balance
  goes through \<^verbatim>\<open>_validate_balance\<close>. Both tests miss NaN: \<^verbatim>\<open>nan <= 0\<close> and \<^verbatim>\<open>nan < 0\<close> are
  false, so \<^verbatim>\<open>deposit(float("nan"))\<close> on a wallet with the balance \<^verbatim>\<open>0.0\<close> is not rejected
  and leaves the balance NaN, for which \<^verbatim>\<open>balance >= 0\<close> is false.
\<close>

theorem deposit_nan_accepted:
  "Wallet_init ''USD'' (Fin 0) = Inr \<lparr>currency_code = ''USD'', balance = Fin 0\<rparr> \<and>
   fle (Fin 0) (balance \<lparr>currency_code = ''USD'', balance = Fin 0\<rparr>) \<and>
   deposit \<lparr>currency_code = ''USD'', balance = Fin 0\<rparr> NaN
     = (Inr (), \<lparr>currency_code = ''USD'', balance = NaN\<rparr>) \<and>
   run_calls \<lparr>currency_code = ''USD'', balance = Fin 0\<rparr> [Deposit NaN]
     = \<lparr>currency_code = ''USD'', balance = NaN\<rparr> \<and>
   \<not> fle (Fin 0) (balance \<lparr>currency_code = ''USD'', balance = NaN\<rparr>)"
  by (simp add: Wallet_init_def deposit_def validate_balance_def)

section \<open>Deposit followed by withdrawal\<close>




section \<open>Currency codes\<close>

text \<open>
  Claim C7 says that a code is accepted exactly when it consists of 2 to 5 uppercase
  letters, and the message of the \<^verbatim>\<open>ValueError\<close> in \<^verbatim>\<open>Currency.__init__\<close> says the same.
  The test is \<^verbatim>\<open>code.isupper()\<close>, which ignores characters that have no case: the code
  \<^verbatim>\<open>"A1"\<close> is accepted although it is not made of uppercase letters.
\<close>

theorem currency_code_digit_accepted:
  "Currency_init ''Dollar'' ''A1'' = Inr \<lparr>name = ''Dollar'', code = ''A1''\<rparr> \<and>
   \<not> spec_valid_code ''A1''"
  by (simp add: Currency_init_def isupper_def spec_valid_code_def
      ascii_uppercase_def ascii_lowercase_def)

text \<open>The other direction holds: 2 to 5 uppercase letters are accepted.\<close>

lemma spec_valid_code_accepted:
  assumes "spec_valid_code s" and "nm \<noteq> []"
  shows "Currency_init nm s = Inr \<lparr>name = nm, code = s\<rparr>"
proof -
  from assms(1) have len: "2 \<le> length s" "length s \<le> 5"
    and up: "\<forall>c\<in>set s. c \<in> set ascii_uppercase"
    by (simp_all add: spec_valid_code_def list_all_iff)
  from len obtain c where c: "c \<in> set s" by (cases s) auto
  have "CHR '' '' \<notin> set s" using up by (auto simp: ascii_uppercase_def)
  moreover have "\<forall>c\<in>set ascii_uppercase. c \<notin> set ascii_lowercase"
    by (simp add: ascii_uppercase_def ascii_lowercase_def)
  with up c have "isupper s"
    unfolding isupper_def list_ex_iff list_all_iff by blast
  ultimately show ?thesis using len assms(2) by (auto simp: Currency_init_def)
qed

section \<open>The rate cache\<close>

text \<open>
  Claim C4. Let the cache hold an entry for the pair, fetched at time \<open>t\<close>. The window of
  5 minutes is 300000000 microseconds. If the age \<open>now - t\<close> is at most the window,
  the age of exactly 5 minutes included, \<^verbatim>\<open>get_exchange_rate\<close> returns the cached entry,
  leaves the cache as it is and does not call the rate source. If the age exceeds the
  window, by one microsecond or more, the rate source is called first and the result is
  what the source returns.
\<close>

theorem fresh_rate_returned:
  assumes "map_of rates_data (from_curr @ ''_'' @ to_curr) = Some entry"
    and "updated_at entry = Some t"
  shows "timedelta_minutes 5 = 300000000 \<and>
         (now - t \<le> 300000000 \<longrightarrow>
            get_exchange_rate rates_data now now' from_curr to_curr = (Some entry, rates_data, [])) \<and>
         (300000000 < now - t \<longrightarrow>
            (\<exists>es. snd (snd (get_exchange_rate rates_data now now' from_curr to_curr))
                    = SourceCall from_curr to_curr # es) \<and>
            fst (get_exchange_rate rates_data now now' from_curr to_curr)
              = fetch_rate_from_parser now' from_curr to_curr)"
  using assms
  by (auto simp: get_exchange_rate_def is_rate_fresh_def timedelta_minutes_def Let_def
      split: option.splits)

text \<open>An instance: an entry fetched at time 0, read at exactly 5 minutes and one microsecond later.\<close>

theorem fresh_rate_returned_witness:
  "map_of [(''BTC_USD'', \<lparr>rate = Fin 50000, updated_at = Some 0\<rparr>)] (''BTC'' @ ''_'' @ ''USD'')
     = Some \<lparr>rate = Fin 50000, updated_at = Some 0\<rparr> \<and>
   updated_at \<lparr>rate = Fin 50000, updated_at = Some 0\<rparr> = Some 0 \<and>
   get_exchange_rate [(''BTC_USD'', \<lparr>rate = Fin 50000, updated_at = Some 0\<rparr>)]
       300000000 300000000 ''BTC'' ''USD''
     = (Some \<lparr>rate = Fin 50000, updated_at = Some 0\<rparr>,
        [(''BTC_USD'', \<lparr>rate = Fin 50000, updated_at = Some 0\<rparr>)], []) \<and>
   fst (get_exchange_rate [(''BTC_USD'', \<lparr>rate = Fin 50000, updated_at = Some 0\<rparr>)]
       300000001 300000001 ''BTC'' ''USD'')
     = fetch_rate_from_parser 300000001 ''BTC'' ''USD''"
proof -
  let ?e = "\<lparr>rate = Fin 50000, updated_at = Some 0\<rparr>"
  let ?rd = "[(''BTC_USD'', ?e)]"
  have h1: "map_of ?rd (''BTC'' @ ''_'' @ ''USD'') = Some ?e" by simp
  have h2: "updated_at ?e = Some 0" by simp
  from fresh_rate_returned [OF h1 h2, of 300000000 300000000]
       fresh_rate_returned [OF h1 h2, of 300000001 300000001] h1 h2
  show ?thesis by simp
qed

text \<open>
  Claim C5. Let the cache hold an entry for the pair whose age exceeds the window of 5
  minutes, and let the rate source fail for the pair (it returns \<^verbatim>\<open>None\<close>). Then
  \<^verbatim>\<open>get_exchange_rate\<close> returns \<^verbatim>\<open>None\<close>, the rate being unavailable, and not the stale
  entry; the source was called once and the cache is unchanged.
\<close>

theorem stale_rate_source_failure:
  assumes "map_of rates_data (from_curr @ ''_'' @ to_curr) = Some entry"
    and "updated_at entry = Some t"
    and "timedelta_minutes 5 < now - t"
    and "fetch_rate_from_parser now' from_curr to_curr = None"
  shows "get_exchange_rate rates_data now now' from_curr to_curr
           = (None, rates_data, [SourceCall from_curr to_curr])"
  using assms
  by (simp add: get_exchange_rate_def is_rate_fresh_def Let_def)

text \<open>
  An instance: \<^verbatim>\<open>EUR_USD\<close> fetched at time 0, read 6 minutes later; the source has no
  quote for the pair.
\<close>

theorem stale_rate_source_failure_witness:
  "map_of [(''EUR_USD'', \<lparr>rate = Fin 1, updated_at = Some 0\<rparr>)] (''EUR'' @ ''_'' @ ''USD'')
     = Some \<lparr>rate = Fin 1, updated_at = Some 0\<rparr> \<and>
   updated_at \<lparr>rate = Fin 1, updated_at = Some 0\<rparr> = Some 0 \<and>
   timedelta_minutes 5 < 360000000 - 0 \<and>
   fetch_rate_from_parser 360000000 ''EUR'' ''USD'' = None \<and>
   get_exchange_rate [(''EUR_USD'', \<lparr>rate = Fin 1, updated_at = Some 0\<rparr>)]
       360000000 360000000 ''EUR'' ''USD''
     = (None, [(''EUR_USD'', \<lparr>rate = Fin 1, updated_at = Some 0\<rparr>)],
        [SourceCall ''EUR'' ''USD''])"
proof -
  let ?e = "\<lparr>rate = Fin 1, updated_at = Some 0\<rparr>"
  let ?rd = "[(''EUR_USD'', ?e)]"
  have h1: "map_of ?rd (''EUR'' @ ''_'' @ ''USD'') = Some ?e" by simp
  have h2: "updated_at ?e = Some 0" by simp
  have h3: "timedelta_minutes 5 < 360000000 - 0" by (simp add: timedelta_minutes_def)
  have h4: "fetch_rate_from_parser 360000000 ''EUR'' ''USD'' = None"
    by (simp add: fetch_rate_from_parser_def mock_rates_def)
  from stale_rate_source_failure [OF h1 h2 h3 h4] h1 h2 h3 h4
  show ?thesis by simp
qed

text \<open>The rate source quotes no pair of a currency with itself.\<close>

lemma same_pair_not_quoted: "map_of mock_rates (c @ ''_'' @ c) = None"
proof -
  have "c @ ''_'' @ c \<noteq> [a1, a2, a3, CHR ''_'', b1, b2, b3]" if "[a1, a2, a3] \<noteq> [b1, b2, b3]"
    for a1 a2 a3 b1 b2 b3 :: char
  proof
    assume eq: "c @ ''_'' @ c = [a1, a2, a3, CHR ''_'', b1, b2, b3]"
    then have "length (c @ ''_'' @ c) = 7" by simp
    then have "length c = 3" by simp
    then obtain x y z where "c = [x, y, z]"
      by (metis length_0_conv length_Suc_conv numeral_3_eq_3)
    with eq that show False by auto
  qed
  then show ?thesis by (simp add: mock_rates_def)
qed

lemma same_pair_not_fetched: "fetch_rate_from_parser now c c = None"
  using same_pair_not_quoted [of c] by (simp add: fetch_rate_from_parser_def)

text \<open>
  Claim C6, as the code has it. \<^verbatim>\<open>get_exchange_rate(c, c)\<close> has no case of its own: the key
  \<^verbatim>\<open>c_c\<close> is looked up in the cache like any other. A fresh entry under that key is
  returned; otherwise the rate source is called, it has no quote for the pair, and the
  result is \<^verbatim>\<open>None\<close> with the cache unchanged.
\<close>

theorem same_currency_rate:
  "get_exchange_rate rates_data now now' c c =
     (case map_of rates_data (c @ ''_'' @ c) of
        None \<Rightarrow> (None, rates_data, [SourceCall c c])
      | Some entry \<Rightarrow>
          if is_rate_fresh (updated_at entry) now 5 then (Some entry, rates_data, [])
          else (None, rates_data, [SourceCall c c]))"
  by (simp add: get_exchange_rate_def same_pair_not_fetched Let_def split: option.splits)

text \<open>
  With an empty cache \<^verbatim>\<open>get_exchange_rate(rates, "USD", "USD")\<close> calls the source and returns
  \<^verbatim>\<open>None\<close>, not an entry with the rate 1.0.
\<close>

theorem same_currency_rate_counterexample:
  "get_exchange_rate [] 0 0 ''USD'' ''USD'' = (None, [], [SourceCall ''USD'' ''USD''])"
  by (simp add: get_exchange_rate_def fetch_rate_from_parser_def mock_rates_def)

section \<open>Loading and storing a portfolio\<close>

lemma Wallet_init_Inr:
  "Wallet_init c b = Inr w \<longleftrightarrow> \<not> flt b (Fin 0) \<and> w = \<lparr>currency_code = c, balance = b\<rparr>"
  by (auto simp: Wallet_init_def validate_balance_def)

lemma wallets_from_dict_map_of:
  "wallets_from_dict ws = Inr l \<Longrightarrow>
     map_of l c = map_option (\<lambda>b. \<lparr>currency_code = c, balance = b\<rparr>) (map_of ws c)"
proof (induction ws arbitrary: l)
  case Nil
  then show ?case by simp
next
  case (Cons kv ws)
  obtain k b where kv: "kv = (k, b)" by (cases kv)
  from Cons.prems kv obtain w l' where
    w: "Wallet_init k b = Inr w" and l': "wallets_from_dict ws = Inr l'" and l: "l = (k, w) # l'"
    by (auto split: sum.splits)
  from w have "w = \<lparr>currency_code = k, balance = b\<rparr>" by (simp add: Wallet_init_Inr)
  with Cons.IH [OF l'] kv l show ?case by simp
qed

lemma show_portfolio_Some:
  assumes "show_portfolio pd uid = Inr (Some p)"
  shows "Portfolio_user_id p = uid"
    and "map_of (Portfolio_wallets p) c
           = map_option (\<lambda>b. \<lparr>currency_code = c, balance = b\<rparr>) (stored_balance pd uid c)"
    and "\<exists>d\<in>set pd. user_id d = uid"
  using assms
proof (induction pd)
  case Nil
  { case 1 then show ?case by simp }
  { case 2 then show ?case by simp }
  { case 3 then show ?case by simp }
next
  case (Cons d pd)
  { case 1 with Cons.IH(1) show ?case
      by (auto simp: Portfolio_from_dict_def split: if_splits sum.splits) }
  { case 2 with Cons.IH(2) show ?case
      by (auto simp: Portfolio_from_dict_def wallets_from_dict_map_of split: if_splits sum.splits) }
  { case 3 with Cons.IH(3) show ?case
      by (auto split: if_splits) }
qed

lemma show_portfolio_None: "show_portfolio pd uid = Inr None \<Longrightarrow> \<forall>d\<in>set pd. user_id d \<noteq> uid"
  by (induction pd) (auto split: if_splits sum.splits)

lemma store_portfolio_first:
  "\<exists>d\<in>set pd. user_id d = uid \<Longrightarrow>
     \<exists>i<length pd. user_id (pd ! i) = uid \<and> (\<forall>j<i. user_id (pd ! j) \<noteq> uid) \<and>
       store_portfolio pd uid new k = (pd[i := new], [StoreWrite (k + i)])"
proof (induction pd arbitrary: k)
  case Nil
  then show ?case by simp
next
  case (Cons d pd)
  show ?case
  proof (cases "user_id d = uid")
    case True
    then have "store_portfolio (d # pd) uid new k = ((d # pd)[0 := new], [StoreWrite (k + 0)])"
      by simp
    with True show ?thesis by (intro exI [of _ 0]) simp
  next
    case False
    with Cons.prems have "\<exists>d\<in>set pd. user_id d = uid" by simp
    from Cons.IH [OF this, of "Suc k"] obtain i where i: "i < length pd" "user_id (pd ! i) = uid"
      "\<forall>j<i. user_id (pd ! j) \<noteq> uid"
      "store_portfolio pd uid new (Suc k) = (pd[i := new], [StoreWrite (Suc k + i)])"
      by blast
    have "\<forall>j<Suc i. user_id ((d # pd) ! j) \<noteq> uid"
      using False i(3) by (auto simp: nth_Cons split: nat.splits)
    with False i show ?thesis by (intro exI [of _ "Suc i"]) simp
  qed
qed

lemma stored_balance_store:
  "\<exists>d\<in>set pd. user_id d = uid \<Longrightarrow> user_id new = uid \<Longrightarrow>
     stored_balance (fst (store_portfolio pd uid new k)) uid c = map_of (wallets new) c"
proof (induction pd arbitrary: k)
  case Nil
  then show ?case by simp
next
  case (Cons d pd)
  show ?case
  proof (cases "user_id d = uid")
    case True
    with Cons.prems(2) show ?thesis by simp
  next
    case False
    with Cons.prems have ex: "\<exists>d\<in>set pd. user_id d = uid" by simp
    obtain ds es where st: "store_portfolio pd uid new (Suc k) = (ds, es)"
      by (cases "store_portfolio pd uid new (Suc k)")
    from Cons.IH [OF ex Cons.prems(2), of "Suc k"] st
    have "stored_balance ds uid c = map_of (wallets new) c" by simp
    with False st show ?thesis by simp
  qed
qed

lemma map_of_to_dict:
  "map_of (wallets (Portfolio_to_dict p)) c = map_option balance (map_of (Portfolio_wallets p) c)"
proof -
  have "map_of (map (\<lambda>(code, w). (code, balance w)) ws) c = map_option balance (map_of ws c)"
    for ws :: "(string \<times> Wallet) list"
    by (induction ws) auto
  then show ?thesis by (simp add: Portfolio_to_dict_def)
qed

lemma deposit_cases:
  "(\<exists>e. deposit w a = (Inl e, w)) \<or>
   (deposit w a = (Inr (), w\<lparr>balance := fadd (balance w) a\<rparr>) \<and> \<not> fle a (Fin 0))"
  by (auto simp: deposit_def validate_balance_def)

lemma withdraw_cases:
  "(\<exists>e. withdraw w a = (Inl e, w)) \<or>
   (withdraw w a = (Inr True, w\<lparr>balance := fsub (balance w) a\<rparr>) \<and> \<not> fle a (Fin 0)
      \<and> \<not> flt (balance w) a)"
  by (auto simp: withdraw_def validate_balance_def)

section \<open>Trades and the store\<close>

lemma buy_currency_failed:
  assumes "buy_currency pd rd uid c a = (r, pd', rd', es)" and "r \<noteq> Returned True"
  shows "pd' = pd \<and> es = []"
  using assms
  by (auto simp: buy_currency_def Let_def split: sum.splits option.splits if_splits prod.splits)

lemma sell_currency_failed:
  assumes "sell_currency pd rd uid c a = (r, pd', rd', es)" and "r \<noteq> Returned True"
  shows "pd' = pd \<and> es = []"
  using assms
  by (auto simp: sell_currency_def Let_def split: sum.splits option.splits if_splits prod.splits)

lemma buy_currency_rates:
  "buy_currency pd rd uid c a = (r, pd', rd', es) \<Longrightarrow> rd' = rd"
  by (auto simp: buy_currency_def Let_def split: sum.splits option.splits if_splits prod.splits)

lemma sell_currency_rates:
  "sell_currency pd rd uid c a = (r, pd', rd', es) \<Longrightarrow> rd' = rd"
  by (auto simp: sell_currency_def Let_def split: sum.splits option.splits if_splits prod.splits)

lemma buy_currency_TrueE:
  assumes "buy_currency pd rd uid c a = (Returned True, pd', rd', es)"
  obtains p entry usd usd' p2 t t' u1 u2 u3 where
    "show_portfolio pd uid = Inr (Some p)"
    "map_of rd (c @ ''_USD'') = Some entry"
    "get_wallet p ''USD'' = Some usd"
    "\<not> flt (balance usd) (fmul a (rate entry))"
    "withdraw usd (fmul a (rate entry)) = (Inr u1, usd')"
    "(if map_of (Portfolio_wallets (put_wallet p ''USD'' usd')) c = None
      then add_currency (put_wallet p ''USD'' usd') c
      else (Inr (), put_wallet p ''USD'' usd')) = (Inr u2, p2)"
    "get_wallet p2 c = Some t"
    "deposit t a = (Inr u3, t')"
    "store_portfolio pd uid (Portfolio_to_dict (put_wallet p2 c t')) 0 = (pd', es)"
  using assms
  by (auto simp: buy_currency_def Let_def split: sum.splits option.splits if_splits prod.splits)

lemma sell_currency_TrueE:
  assumes "sell_currency pd rd uid c a = (Returned True, pd', rd', es)"
  obtains p entry w w' p2 usd usd' u1 u2 u3 where
    "show_portfolio pd uid = Inr (Some p)"
    "get_wallet p c = Some w"
    "\<not> flt (balance w) a"
    "map_of rd (c @ ''_USD'') = Some entry"
    "withdraw w a = (Inr u1, w')"
    "(case get_wallet (put_wallet p c w') ''USD'' of
        Some usd_wallet \<Rightarrow> (Inr (), put_wallet p c w')
      | None \<Rightarrow> add_currency (put_wallet p c w') ''USD'') = (Inr u2, p2)"
    "get_wallet p2 ''USD'' = Some usd"
    "deposit usd (fmul a (rate entry)) = (Inr u3, usd')"
    "store_portfolio pd uid (Portfolio_to_dict (put_wallet p2 ''USD'' usd')) 0 = (pd', es)"
  using assms
  by (auto simp: sell_currency_def Let_def split: sum.splits option.splits if_splits prod.splits)


lemma put_wallet_simps:
  "Portfolio_user_id (put_wallet p k w) = Portfolio_user_id p"
  "map_of (Portfolio_wallets (put_wallet p k w)) = (map_of (Portfolio_wallets p))(k \<mapsto> w)"
  by (simp_all add: put_wallet_def update_conv')

lemma add_currency_absent:
  "map_of (Portfolio_wallets q) k = None \<Longrightarrow>
     add_currency q k = (Inr (), put_wallet q k \<lparr>currency_code = k, balance = Fin 0\<rparr>)"
  by (simp add: add_currency_def Wallet_init_def validate_balance_def put_wallet_def)

lemma withdraw_Inr:
  "withdraw w a = (Inr u, w') \<Longrightarrow> w' = w\<lparr>balance := fsub (balance w) a\<rparr> \<and> \<not> fle a (Fin 0)"
  using withdraw_cases [of w a] by auto

lemma deposit_Inr:
  "deposit w a = (Inr u, w') \<Longrightarrow> w' = w\<lparr>balance := fadd (balance w) a\<rparr> \<and> \<not> fle a (Fin 0)"
  using deposit_cases [of w a] by auto

lemma stored_after_trade:
  assumes "show_portfolio pd uid = Inr (Some p)"
    and "Portfolio_user_id q = uid"
    and "store_portfolio pd uid (Portfolio_to_dict q) 0 = (pd', es)"
  shows "stored_balance pd' uid k = map_option balance (map_of (Portfolio_wallets q) k)"
proof -
  have "\<exists>d\<in>set pd. user_id d = uid" using assms(1) by (rule show_portfolio_Some(3))
  moreover have "user_id (Portfolio_to_dict q) = uid"
    using assms(2) by (simp add: Portfolio_to_dict_def)
  ultimately have "stored_balance (fst (store_portfolio pd uid (Portfolio_to_dict q) 0)) uid k
      = map_of (wallets (Portfolio_to_dict q)) k"
    by (rule stored_balance_store)
  with assms(3) show ?thesis by (simp add: map_of_to_dict)
qed

lemma buy_moves_balances:
  assumes "buy_currency pd rd uid c a = (Returned True, pd', rd', es)" and "c \<noteq> ''USD''"
  shows "\<exists>entry b. map_of rd (c @ ''_USD'') = Some entry \<and>
           stored_balance pd uid ''USD'' = Some b \<and>
           stored_balance pd' uid ''USD'' = Some (fsub b (fmul a (rate entry))) \<and>
           stored_balance pd' uid c =
             Some (fadd (case stored_balance pd uid c of None \<Rightarrow> Fin 0 | Some x \<Rightarrow> x) a)"
proof -
  from assms(1) obtain p entry usd usd' p2 t t' u1 u2 u3 where
    sp: "show_portfolio pd uid = Inr (Some p)"
    and entry: "map_of rd (c @ ''_USD'') = Some entry"
    and usd: "get_wallet p ''USD'' = Some usd"
    and wd: "withdraw usd (fmul a (rate entry)) = (Inr u1, usd')"
    and p2: "(if map_of (Portfolio_wallets (put_wallet p ''USD'' usd')) c = None
      then add_currency (put_wallet p ''USD'' usd') c
      else (Inr (), put_wallet p ''USD'' usd')) = (Inr u2, p2)"
    and t: "get_wallet p2 c = Some t"
    and dp: "deposit t a = (Inr u3, t')"
    and st: "store_portfolio pd uid (Portfolio_to_dict (put_wallet p2 c t')) 0 = (pd', es)"
    by (rule buy_currency_TrueE)
  let ?cost = "fmul a (rate entry)"
  let ?p1 = "put_wallet p ''USD'' usd'"
  note ld = show_portfolio_Some [OF sp]
  from usd ld(2) [of "''USD''"] obtain b where
    b: "stored_balance pd uid ''USD'' = Some b" and usd_b: "balance usd = b"
    by (auto simp: get_wallet_def)
  from wd have usd': "usd' = usd\<lparr>balance := fsub (balance usd) ?cost\<rparr>"
    by (simp add: withdraw_Inr)
  have p1c: "map_of (Portfolio_wallets ?p1) c = map_of (Portfolio_wallets p) c"
    using assms(2) by (simp add: put_wallet_simps)
  have p2_id: "Portfolio_user_id p2 = uid"
    and p2_usd: "map_of (Portfolio_wallets p2) ''USD'' = Some usd'"
    and p2_c: "balance t = (case stored_balance pd uid c of None \<Rightarrow> Fin 0 | Some x \<Rightarrow> x)"
  proof -
    show "Portfolio_user_id p2 = uid"
      using p2 ld(1) by (auto simp: put_wallet_simps add_currency_absent split: if_splits)
    show "map_of (Portfolio_wallets p2) ''USD'' = Some usd'"
      using p2 assms(2) by (auto simp: put_wallet_simps add_currency_absent split: if_splits)
    show "balance t = (case stored_balance pd uid c of None \<Rightarrow> Fin 0 | Some x \<Rightarrow> x)"
    proof (cases "map_of (Portfolio_wallets ?p1) c = None")
      case True
      with p2 have "p2 = put_wallet ?p1 c \<lparr>currency_code = c, balance = Fin 0\<rparr>"
        by (simp add: add_currency_absent)
      with t have "t = \<lparr>currency_code = c, balance = Fin 0\<rparr>"
        by (simp add: get_wallet_def put_wallet_simps)
      moreover from True p1c ld(2) [of c] have "stored_balance pd uid c = None" by simp
      ultimately show ?thesis by simp
    next
      case False
      with p2 have "p2 = ?p1" by simp
      with t p1c have "map_of (Portfolio_wallets p) c = Some t" by (simp add: get_wallet_def)
      with ld(2) [of c] show ?thesis by (cases "stored_balance pd uid c") auto
    qed
  qed
  from dp have t': "t' = t\<lparr>balance := fadd (balance t) a\<rparr>" by (simp add: deposit_Inr)
  have id3: "Portfolio_user_id (put_wallet p2 c t') = uid"
    using p2_id by (simp add: put_wallet_simps)
  note after = stored_after_trade [OF sp id3 st]
  have "stored_balance pd' uid ''USD'' = Some (fsub b ?cost)"
    using after [of "''USD''"] assms(2) p2_usd usd' usd_b by (simp add: put_wallet_simps)
  moreover have "stored_balance pd' uid c =
      Some (fadd (case stored_balance pd uid c of None \<Rightarrow> Fin 0 | Some x \<Rightarrow> x) a)"
    using after [of c] t' p2_c by (simp add: put_wallet_simps)
  ultimately show ?thesis using entry b by blast
qed

lemma sell_moves_balances:
  assumes "sell_currency pd rd uid c a = (Returned True, pd', rd', es)" and "c \<noteq> ''USD''"
  shows "\<exists>entry b. map_of rd (c @ ''_USD'') = Some entry \<and>
           stored_balance pd uid c = Some b \<and>
           stored_balance pd' uid c = Some (fsub b a) \<and>
           stored_balance pd' uid ''USD'' =
             Some (fadd (case stored_balance pd uid ''USD'' of None \<Rightarrow> Fin 0 | Some x \<Rightarrow> x)
                        (fmul a (rate entry)))"
proof -
  from assms(1) obtain p entry w w' p2 usd usd' u1 u2 u3 where
    sp: "show_portfolio pd uid = Inr (Some p)"
    and w: "get_wallet p c = Some w"
    and entry: "map_of rd (c @ ''_USD'') = Some entry"
    and wd: "withdraw w a = (Inr u1, w')"
    and p2: "(case get_wallet (put_wallet p c w') ''USD'' of
        Some usd_wallet \<Rightarrow> (Inr (), put_wallet p c w')
      | None \<Rightarrow> add_currency (put_wallet p c w') ''USD'') = (Inr u2, p2)"
    and usd: "get_wallet p2 ''USD'' = Some usd"
    and dp: "deposit usd (fmul a (rate entry)) = (Inr u3, usd')"
    and st: "store_portfolio pd uid (Portfolio_to_dict (put_wallet p2 ''USD'' usd')) 0 = (pd', es)"
    by (rule sell_currency_TrueE)
  let ?revenue = "fmul a (rate entry)"
  let ?p1 = "put_wallet p c w'"
  note ld = show_portfolio_Some [OF sp]
  from w ld(2) [of c] obtain b where
    b: "stored_balance pd uid c = Some b" and w_b: "balance w = b"
    by (auto simp: get_wallet_def)
  from wd have w': "w' = w\<lparr>balance := fsub (balance w) a\<rparr>"
    by (simp add: withdraw_Inr)
  have p1u: "map_of (Portfolio_wallets ?p1) ''USD'' = map_of (Portfolio_wallets p) ''USD''"
    using assms(2) by (simp add: put_wallet_simps)
  have p2_id: "Portfolio_user_id p2 = uid"
    and p2_c: "map_of (Portfolio_wallets p2) c = Some w'"
    and p2_usd: "balance usd = (case stored_balance pd uid ''USD'' of None \<Rightarrow> Fin 0 | Some x \<Rightarrow> x)"
  proof -
    show "Portfolio_user_id p2 = uid"
      using p2 ld(1)
      by (auto simp: get_wallet_def put_wallet_simps add_currency_absent split: option.splits)
    show "map_of (Portfolio_wallets p2) c = Some w'"
      using p2 assms(2)
      by (auto simp: get_wallet_def put_wallet_simps add_currency_absent split: option.splits)
    show "balance usd = (case stored_balance pd uid ''USD'' of None \<Rightarrow> Fin 0 | Some x \<Rightarrow> x)"
    proof (cases "map_of (Portfolio_wallets ?p1) ''USD''")
      case None
      with p2 have "p2 = put_wallet ?p1 ''USD'' \<lparr>currency_code = ''USD'', balance = Fin 0\<rparr>"
        by (simp add: get_wallet_def add_currency_absent)
      with usd have "usd = \<lparr>currency_code = ''USD'', balance = Fin 0\<rparr>"
        by (simp add: get_wallet_def put_wallet_simps)
      moreover from None p1u ld(2) [of "''USD''"] have "stored_balance pd uid ''USD'' = None"
        by simp
      ultimately show ?thesis by simp
    next
      case (Some x)
      with p2 have "p2 = ?p1" by (simp add: get_wallet_def)
      with usd p1u have "map_of (Portfolio_wallets p) ''USD'' = Some usd"
        by (simp add: get_wallet_def)
      with ld(2) [of "''USD''"] show ?thesis
        by (cases "stored_balance pd uid ''USD''") auto
    qed
  qed
  from dp have usd': "usd' = usd\<lparr>balance := fadd (balance usd) ?revenue\<rparr>"
    by (simp add: deposit_Inr)
  have id3: "Portfolio_user_id (put_wallet p2 ''USD'' usd') = uid"
    using p2_id by (simp add: put_wallet_simps)
  note after = stored_after_trade [OF sp id3 st]
  have "stored_balance pd' uid c = Some (fsub b a)"
    using after [of c] assms(2) p2_c w' w_b by (simp add: put_wallet_simps)
  moreover have "stored_balance pd' uid ''USD'' =
      Some (fadd (case stored_balance pd uid ''USD'' of None \<Rightarrow> Fin 0 | Some x \<Rightarrow> x) ?revenue)"
    using after [of "''USD''"] usd' p2_usd by (simp add: put_wallet_simps)
  ultimately show ?thesis using entry b by blast
qed

text \<open>
  Claim C1, for a currency other than USD. When \<^verbatim>\<open>buy_currency\<close> returns \<^verbatim>\<open>True\<close>, the rate
  is the one cached under \<^verbatim>\<open>currency_USD\<close>, the stored USD balance of the user has become
  the float difference of the old balance and \<^verbatim>\<open>amount * rate\<close>, and the stored balance of
  the currency has become the float sum of the old balance (\<^verbatim>\<open>0.0\<close> when the wallet did
  not exist) and the amount. When \<^verbatim>\<open>sell_currency\<close> returns \<^verbatim>\<open>True\<close>, the balance of the
  currency has become the old balance minus the amount, and the USD balance the old
  balance (\<^verbatim>\<open>0.0\<close> when absent) plus \<^verbatim>\<open>amount * rate\<close>.
\<close>

theorem trade_moves_balances:
  assumes "c \<noteq> ''USD''"
  shows "(buy_currency pd rd uid c a = (Returned True, pd', rd', es) \<longrightarrow>
           (\<exists>entry b. map_of rd (c @ ''_USD'') = Some entry \<and>
              stored_balance pd uid ''USD'' = Some b \<and>
              stored_balance pd' uid ''USD'' = Some (fsub b (fmul a (rate entry))) \<and>
              stored_balance pd' uid c =
                Some (fadd (case stored_balance pd uid c of None \<Rightarrow> Fin 0 | Some x \<Rightarrow> x) a))) \<and>
         (sell_currency pd rd uid c a = (Returned True, pd', rd', es) \<longrightarrow>
           (\<exists>entry b. map_of rd (c @ ''_USD'') = Some entry \<and>
              stored_balance pd uid c = Some b \<and>
              stored_balance pd' uid c = Some (fsub b a) \<and>
              stored_balance pd' uid ''USD'' =
                Some (fadd (case stored_balance pd uid ''USD'' of None \<Rightarrow> Fin 0 | Some x \<Rightarrow> x)
                           (fmul a (rate entry)))))"
  using assms buy_moves_balances [of pd rd uid c a pd' rd' es]
    sell_moves_balances [of pd rd uid c a pd' rd' es]
  by blast

text \<open>Evaluating a trade on given data.\<close>

lemmas eval_trade =
  buy_currency_def sell_currency_def show_portfolio.simps Portfolio_from_dict_def
  wallets_from_dict.simps Wallet_init_def validate_balance_def get_wallet_def put_wallet_def
  add_currency_def withdraw_def deposit_def Portfolio_to_dict_def store_portfolio.simps

text \<open>
  The scenario of the specification: \<^verbatim>\<open>{USD: 1000}\<close>, \<^verbatim>\<open>BTC_USD = 50000\<close>, a purchase of
  \<^verbatim>\<open>0.01\<close> BTC (the float nearest to 0.01) and its sale at the same rate.
\<close>

lemma buy_example:
  "buy_currency [\<lparr>user_id = 1, wallets = [(''USD'', Fin 1000)]\<rparr>]
      [(''BTC_USD'', \<lparr>rate = Fin 50000, updated_at = Some 0\<rparr>)] 1 ''BTC''
      (Fin (5764607523034235 / 576460752303423488))
   = (Returned True,
      [\<lparr>user_id = 1, wallets = [(''USD'', Fin 500),
          (''BTC'', Fin (5764607523034235 / 576460752303423488))]\<rparr>],
      [(''BTC_USD'', \<lparr>rate = Fin 50000, updated_at = Some 0\<rparr>)], [StoreWrite 0])"
  by (simp add: eval_trade eval64)

lemma sell_example:
  "sell_currency [\<lparr>user_id = 1, wallets = [(''USD'', Fin 500),
          (''BTC'', Fin (5764607523034235 / 576460752303423488))]\<rparr>]
      [(''BTC_USD'', \<lparr>rate = Fin 50000, updated_at = Some 0\<rparr>)] 1 ''BTC''
      (Fin (5764607523034235 / 576460752303423488))
   = (Returned True,
      [\<lparr>user_id = 1, wallets = [(''USD'', Fin 1000), (''BTC'', Fin 0)]\<rparr>],
      [(''BTC_USD'', \<lparr>rate = Fin 50000, updated_at = Some 0\<rparr>)], [StoreWrite 0])"
  by (simp add: eval_trade eval64)

theorem trade_moves_balances_witness:
  "''BTC'' \<noteq> ''USD'' \<and>
   buy_currency [\<lparr>user_id = 1, wallets = [(''USD'', Fin 1000)]\<rparr>]
      [(''BTC_USD'', \<lparr>rate = Fin 50000, updated_at = Some 0\<rparr>)] 1 ''BTC''
      (Fin (5764607523034235 / 576460752303423488))
   = (Returned True,
      [\<lparr>user_id = 1, wallets = [(''USD'', Fin 500),
          (''BTC'', Fin (5764607523034235 / 576460752303423488))]\<rparr>],
      [(''BTC_USD'', \<lparr>rate = Fin 50000, updated_at = Some 0\<rparr>)], [StoreWrite 0]) \<and>
   Some (Fin 500)
     = Some (fsub (Fin 1000) (fmul (Fin (5764607523034235 / 576460752303423488)) (Fin 50000))) \<and>
   Some (Fin (5764607523034235 / 576460752303423488))
     = Some (fadd (Fin 0) (Fin (5764607523034235 / 576460752303423488))) \<and>
   sell_currency [\<lparr>user_id = 1, wallets = [(''USD'', Fin 500),
          (''BTC'', Fin (5764607523034235 / 576460752303423488))]\<rparr>]
      [(''BTC_USD'', \<lparr>rate = Fin 50000, updated_at = Some 0\<rparr>)] 1 ''BTC''
      (Fin (5764607523034235 / 576460752303423488))
   = (Returned True,
      [\<lparr>user_id = 1, wallets = [(''USD'', Fin 1000), (''BTC'', Fin 0)]\<rparr>],
      [(''BTC_USD'', \<lparr>rate = Fin 50000, updated_at = Some 0\<rparr>)], [StoreWrite 0]) \<and>
   Some (Fin 0)
     = Some (fsub (Fin (5764607523034235 / 576460752303423488))
               (Fin (5764607523034235 / 576460752303423488))) \<and>
   Some (Fin 1000)
     = Some (fadd (Fin 500) (fmul (Fin (5764607523034235 / 576460752303423488)) (Fin 50000)))"
proof -
  let ?a = "Fin (5764607523034235 / 576460752303423488)"
  let ?pd = "[\<lparr>user_id = 1, wallets = [(''USD'', Fin 1000)]\<rparr>]"
  let ?pd' = "[\<lparr>user_id = 1, wallets = [(''USD'', Fin 500), (''BTC'', ?a)]\<rparr>]"
  let ?pd'' = "[\<lparr>user_id = 1, wallets = [(''USD'', Fin 1000), (''BTC'', Fin 0)]\<rparr>]"
  let ?rd = "[(''BTC_USD'', \<lparr>rate = Fin 50000, updated_at = Some 0\<rparr>)]"
  have h: "''BTC'' \<noteq> ''USD''" by simp
  note ex = buy_example
  note ex' = sell_example
  from trade_moves_balances [OF h, of ?pd ?rd 1 ?a ?pd' ?rd "[StoreWrite 0]"] ex
  have "\<exists>entry b. map_of ?rd (''BTC'' @ ''_USD'') = Some entry \<and>
          stored_balance ?pd 1 ''USD'' = Some b \<and>
          stored_balance ?pd' 1 ''USD'' = Some (fsub b (fmul ?a (rate entry))) \<and>
          stored_balance ?pd' 1 ''BTC'' =
            Some (fadd (case stored_balance ?pd 1 ''BTC'' of None \<Rightarrow> Fin 0 | Some x \<Rightarrow> x) ?a)"
    by blast
  then have b: "Some (Fin 500) = Some (fsub (Fin 1000) (fmul ?a (Fin 50000))) \<and>
             Some ?a = Some (fadd (Fin 0) ?a)"
    by (elim exE conjE) (auto simp del: fmul.simps fadd.simps fsub.simps)
  from trade_moves_balances [OF h, of ?pd' ?rd 1 ?a ?pd'' ?rd "[StoreWrite 0]"] ex'
  have "\<exists>entry b. map_of ?rd (''BTC'' @ ''_USD'') = Some entry \<and>
          stored_balance ?pd' 1 ''BTC'' = Some b \<and>
          stored_balance ?pd'' 1 ''BTC'' = Some (fsub b ?a) \<and>
          stored_balance ?pd'' 1 ''USD'' =
            Some (fadd (case stored_balance ?pd' 1 ''USD'' of None \<Rightarrow> Fin 0 | Some x \<Rightarrow> x)
                       (fmul ?a (rate entry)))"
    by blast
  then have s: "Some (Fin 0) = Some (fsub ?a ?a) \<and>
             Some (Fin 1000) = Some (fadd (Fin 500) (fmul ?a (Fin 50000)))"
    by (elim exE conjE) (auto simp del: fmul.simps fadd.simps fsub.simps)
  from h ex ex' b s show ?thesis by blast
qed

text \<open>
  For the currency USD itself the two wallets are one. With \<^verbatim>\<open>USD_USD = 1.0\<close> cached and
  \<^verbatim>\<open>{USD: 10}\<close>, buying 5 USD succeeds and the USD balance is 10 afterwards: it has
  neither decreased by \<^verbatim>\<open>amount * rate = 5\<close> nor increased by the amount.
\<close>

theorem trade_same_currency_counterexample:
  "buy_currency [\<lparr>user_id = 1, wallets = [(''USD'', Fin 10)]\<rparr>]
      [(''USD_USD'', \<lparr>rate = Fin 1, updated_at = Some 0\<rparr>)] 1 ''USD'' (Fin 5)
   = (Returned True, [\<lparr>user_id = 1, wallets = [(''USD'', Fin 10)]\<rparr>],
      [(''USD_USD'', \<lparr>rate = Fin 1, updated_at = Some 0\<rparr>)], [StoreWrite 0]) \<and>
   fmul (Fin 5) (Fin 1) = Fin 5 \<and>
   fsub (Fin 10) (Fin 5) = Fin 5 \<and>
   fadd (Fin 10) (Fin 5) = Fin 15 \<and>
   stored_balance [\<lparr>user_id = 1, wallets = [(''USD'', Fin 10)]\<rparr>] 1 ''USD'' \<noteq> Some (Fin 5) \<and>
   stored_balance [\<lparr>user_id = 1, wallets = [(''USD'', Fin 10)]\<rparr>] 1 ''USD'' \<noteq> Some (Fin 15)"
  by (simp add: eval_trade eval64)

lemma store_portfolio_write:
  assumes "show_portfolio pd uid = Inr (Some p)"
    and "Portfolio_user_id q = uid"
    and "store_portfolio pd uid (Portfolio_to_dict q) 0 = (pd', es)"
  shows "\<exists>i<length pd. user_id (pd ! i) = uid \<and> (\<forall>j<i. user_id (pd ! j) \<noteq> uid) \<and>
           es = [StoreWrite i] \<and> pd' = pd[i := Portfolio_to_dict q] \<and>
           user_id (Portfolio_to_dict q) = uid"
proof -
  have "\<exists>d\<in>set pd. user_id d = uid" using assms(1) by (rule show_portfolio_Some(3))
  from store_portfolio_first [OF this, of "Portfolio_to_dict q" 0] assms(2,3)
  show ?thesis by (auto simp: Portfolio_to_dict_def)
qed

lemma buy_currency_write:
  assumes "buy_currency pd rd uid c a = (Returned True, pd', rd', es)"
  shows "\<exists>i<length pd. user_id (pd ! i) = uid \<and> (\<forall>j<i. user_id (pd ! j) \<noteq> uid) \<and>
           es = [StoreWrite i] \<and> pd' = pd[i := pd' ! i] \<and> user_id (pd' ! i) = uid"
proof -
  from assms obtain p usd' p2 t' u2 where
    sp: "show_portfolio pd uid = Inr (Some p)"
    and p2: "(if map_of (Portfolio_wallets (put_wallet p ''USD'' usd')) c = None
      then add_currency (put_wallet p ''USD'' usd') c
      else (Inr (), put_wallet p ''USD'' usd')) = (Inr u2, p2)"
    and st: "store_portfolio pd uid (Portfolio_to_dict (put_wallet p2 c t')) 0 = (pd', es)"
    by (rule buy_currency_TrueE)
  have "Portfolio_user_id p2 = uid"
    using p2 show_portfolio_Some(1) [OF sp]
    by (auto simp: put_wallet_simps add_currency_absent split: if_splits)
  then have "Portfolio_user_id (put_wallet p2 c t') = uid" by (simp add: put_wallet_simps)
  from store_portfolio_write [OF sp this st] show ?thesis by auto
qed

lemma sell_currency_write:
  assumes "sell_currency pd rd uid c a = (Returned True, pd', rd', es)"
  shows "\<exists>i<length pd. user_id (pd ! i) = uid \<and> (\<forall>j<i. user_id (pd ! j) \<noteq> uid) \<and>
           es = [StoreWrite i] \<and> pd' = pd[i := pd' ! i] \<and> user_id (pd' ! i) = uid"
proof -
  from assms obtain p w' p2 usd' u2 where
    sp: "show_portfolio pd uid = Inr (Some p)"
    and p2: "(case get_wallet (put_wallet p c w') ''USD'' of
        Some usd_wallet \<Rightarrow> (Inr (), put_wallet p c w')
      | None \<Rightarrow> add_currency (put_wallet p c w') ''USD'') = (Inr u2, p2)"
    and st: "store_portfolio pd uid (Portfolio_to_dict (put_wallet p2 ''USD'' usd')) 0 = (pd', es)"
    by (rule sell_currency_TrueE)
  have "Portfolio_user_id p2 = uid"
    using p2 show_portfolio_Some(1) [OF sp]
    by (auto simp: get_wallet_def put_wallet_simps add_currency_absent split: option.splits)
  then have "Portfolio_user_id (put_wallet p2 ''USD'' usd') = uid" by (simp add: put_wallet_simps)
  from store_portfolio_write [OF sp this st] show ?thesis by auto
qed

text \<open>
  Claim C2. Whatever \<^verbatim>\<open>buy_currency\<close> or \<^verbatim>\<open>sell_currency\<close> does other than return \<^verbatim>\<open>True\<close>
  (it returns \<^verbatim>\<open>False\<close> at one of the checks, or raises), \<^verbatim>\<open>portfolios_data\<close> is left as it
  was and nothing is written. When it returns \<^verbatim>\<open>True\<close> there is exactly one write: the
  first record of the user, at index \<open>i\<close>, is replaced by a record of the same user, and
  every other record is untouched.
\<close>

theorem trade_store_writes:
  "(buy_currency pd rd uid c a = (r, pd', rd', es) \<longrightarrow>
      (if r = Returned True
       then \<exists>i<length pd. user_id (pd ! i) = uid \<and> (\<forall>j<i. user_id (pd ! j) \<noteq> uid) \<and>
              es = [StoreWrite i] \<and> pd' = pd[i := pd' ! i] \<and> user_id (pd' ! i) = uid
       else pd' = pd \<and> es = [])) \<and>
   (sell_currency pd rd uid c a = (r, pd', rd', es) \<longrightarrow>
      (if r = Returned True
       then \<exists>i<length pd. user_id (pd ! i) = uid \<and> (\<forall>j<i. user_id (pd ! j) \<noteq> uid) \<and>
              es = [StoreWrite i] \<and> pd' = pd[i := pd' ! i] \<and> user_id (pd' ! i) = uid
       else pd' = pd \<and> es = []))"
proof (intro conjI impI)
  assume "buy_currency pd rd uid c a = (r, pd', rd', es)"
  then show "if r = Returned True
       then \<exists>i<length pd. user_id (pd ! i) = uid \<and> (\<forall>j<i. user_id (pd ! j) \<noteq> uid) \<and>
              es = [StoreWrite i] \<and> pd' = pd[i := pd' ! i] \<and> user_id (pd' ! i) = uid
       else pd' = pd \<and> es = []"
    using buy_currency_write [of pd rd uid c a pd' rd' es]
      buy_currency_failed [of pd rd uid c a r pd' rd' es]
    by (cases "r = Returned True") simp_all
next
  assume "sell_currency pd rd uid c a = (r, pd', rd', es)"
  then show "if r = Returned True
       then \<exists>i<length pd. user_id (pd ! i) = uid \<and> (\<forall>j<i. user_id (pd ! j) \<noteq> uid) \<and>
              es = [StoreWrite i] \<and> pd' = pd[i := pd' ! i] \<and> user_id (pd' ! i) = uid
       else pd' = pd \<and> es = []"
    using sell_currency_write [of pd rd uid c a pd' rd' es]
      sell_currency_failed [of pd rd uid c a r pd' rd' es]
    by (cases "r = Returned True") simp_all
qed

text \<open>
  An instance: the purchase above writes record 0 once; the sale of ETH from a portfolio
  with no ETH wallet returns \<^verbatim>\<open>False\<close> and writes nothing.
\<close>

theorem trade_store_writes_witness:
  "buy_currency [\<lparr>user_id = 1, wallets = [(''USD'', Fin 1000)]\<rparr>]
      [(''BTC_USD'', \<lparr>rate = Fin 50000, updated_at = Some 0\<rparr>)] 1 ''BTC''
      (Fin (5764607523034235 / 576460752303423488))
   = (Returned True,
      [\<lparr>user_id = 1, wallets = [(''USD'', Fin 500),
          (''BTC'', Fin (5764607523034235 / 576460752303423488))]\<rparr>],
      [(''BTC_USD'', \<lparr>rate = Fin 50000, updated_at = Some 0\<rparr>)], [StoreWrite 0]) \<and>
   sell_currency [\<lparr>user_id = 1, wallets = [(''USD'', Fin 1000)]\<rparr>]
      [(''ETH_USD'', \<lparr>rate = Fin 3000, updated_at = Some 0\<rparr>)] 1 ''ETH'' (Fin 1)
   = (Returned False, [\<lparr>user_id = 1, wallets = [(''USD'', Fin 1000)]\<rparr>],
      [(''ETH_USD'', \<lparr>rate = Fin 3000, updated_at = Some 0\<rparr>)], []) \<and>
   user_id ([\<lparr>user_id = 1, wallets = [(''USD'', Fin 1000)]\<rparr>] ! 0) = 1 \<and>
   Returned False \<noteq> Returned True"
proof -
  let ?a = "Fin (5764607523034235 / 576460752303423488)"
  let ?pd = "[\<lparr>user_id = 1, wallets = [(''USD'', Fin 1000)]\<rparr>]"
  let ?pd' = "[\<lparr>user_id = 1, wallets = [(''USD'', Fin 500), (''BTC'', ?a)]\<rparr>]"
  let ?rd = "[(''BTC_USD'', \<lparr>rate = Fin 50000, updated_at = Some 0\<rparr>)]"
  let ?rd3 = "[(''ETH_USD'', \<lparr>rate = Fin 3000, updated_at = Some 0\<rparr>)]"
  have s: "sell_currency ?pd ?rd3 1 ''ETH'' (Fin 1) = (Returned False, ?pd, ?rd3, [])"
    by (simp add: eval_trade)
  note t1 = trade_store_writes [of ?pd ?rd 1 "''BTC''" ?a "Returned True" ?pd' ?rd "[StoreWrite 0]"]
  note t2 = trade_store_writes [of ?pd ?rd3 1 "''ETH''" "Fin 1" "Returned False" ?pd ?rd3 "[]"]
  from t1 t2 buy_example s show ?thesis by simp
qed

section \<open>Trades of a non-positive amount\<close>

lemma round64_nonpos: "q \<le> 0 \<Longrightarrow> fle (round64 q) (Fin 0)"
  using round_mag_nonneg [of "- q"] by (simp add: round64_def)

lemma fmul_nonpos:
  assumes "fle a (Fin 0)" and "fle (Fin 0) r"
  shows "fle (fmul a r) (Fin 0) \<or> fmul a r = NaN"
proof (cases a)
  case (Fin x)
  show ?thesis
  proof (cases r)
    case (Fin y)
    with assms \<open>a = Fin x\<close> have "x * y \<le> 0" by (simp add: mult_nonpos_nonneg)
    with Fin \<open>a = Fin x\<close> show ?thesis by (simp add: round64_nonpos)
  qed (use assms Fin in auto)
next
  case MInf
  with assms show ?thesis by (cases r) auto
qed (use assms in auto)

lemma not_flt_nonpos:
  "\<not> flt b (Fin 0) \<Longrightarrow> fle x (Fin 0) \<or> x = NaN \<Longrightarrow> \<not> flt b x"
  by (cases b; cases x) auto

lemma wallets_from_dict_valid:
  "wallets_from_dict ws = Inr l \<Longrightarrow> map_of l c = Some w \<Longrightarrow> \<not> flt (balance w) (Fin 0)"
proof (induction ws arbitrary: l)
  case Nil
  then show ?case by simp
next
  case (Cons kv ws)
  obtain k b where kv: "kv = (k, b)" by (cases kv)
  from Cons.prems(1) kv obtain v l' where
    v: "Wallet_init k b = Inr v" and l': "wallets_from_dict ws = Inr l'" and l: "l = (k, v) # l'"
    by (auto split: sum.splits)
  from v have "\<not> flt (balance v) (Fin 0)" by (auto simp: Wallet_init_Inr)
  with Cons.IH [OF l'] Cons.prems(2) l show ?case by (auto split: if_splits)
qed

lemma show_portfolio_valid:
  "show_portfolio pd uid = Inr (Some p) \<Longrightarrow> get_wallet p c = Some w
     \<Longrightarrow> \<not> flt (balance w) (Fin 0)"
  by (induction pd)
    (auto simp: Portfolio_from_dict_def get_wallet_def wallets_from_dict_valid
      split: if_splits sum.splits)

lemma wallets_from_dict_Inl: "wallets_from_dict ws = Inl e \<Longrightarrow> e = ValueError"
  by (induction ws)
    (auto simp: Wallet_init_def validate_balance_def split: sum.splits if_splits)

lemma show_portfolio_Inl: "show_portfolio pd uid = Inl e \<Longrightarrow> e = ValueError"
  by (induction pd)
    (auto simp: Portfolio_from_dict_def wallets_from_dict_Inl split: if_splits sum.splits)

lemma deposit_nonpositive: "fle a (Fin 0) \<Longrightarrow> deposit w a = (Inl ValueError, w)"
  by (simp add: deposit_def)

lemma withdraw_nonpositive: "fle a (Fin 0) \<Longrightarrow> withdraw w a = (Inl ValueError, w)"
  by (simp add: withdraw_def)

lemma withdraw_Inl:
  "withdraw w x = (Inl e, w') \<Longrightarrow> \<not> flt (balance w) x \<Longrightarrow> e = ValueError"
  by (auto simp: withdraw_def validate_balance_def split: if_splits)

lemma buy_nonpositive:
  assumes "fle a (Fin 0)" and "buy_currency pd rd uid c a = (r, pd', rd', es)"
  shows "r = Returned False \<or> r = Raised ValueError"
  using assms
  by (auto simp: buy_currency_def Let_def deposit_nonpositive put_wallet_simps get_wallet_def
      add_currency_absent
      dest: show_portfolio_Inl withdraw_Inl
      split: sum.splits option.splits if_splits prod.splits)

lemma sell_nonpositive:
  assumes "fle a (Fin 0)" and "sell_currency pd rd uid c a = (r, pd', rd', es)"
  shows "r = Returned False \<or> r = Raised ValueError"
  using assms
  by (auto simp: sell_currency_def Let_def withdraw_nonpositive
      dest: show_portfolio_Inl
      split: sum.splits option.splits if_splits prod.splits)


lemma buy_nonpositive_raises:
  assumes "fle a (Fin 0)"
    and "show_portfolio pd uid = Inr (Some p)"
    and "map_of rd (c @ ''_USD'') = Some entry"
    and "fle (Fin 0) (rate entry)"
    and "get_wallet p ''USD'' \<noteq> None"
  shows "fst (buy_currency pd rd uid c a) = Raised ValueError"
proof -
  from assms(5) obtain usd where usd: "get_wallet p ''USD'' = Some usd" by auto
  have "\<not> flt (balance usd) (Fin 0)" using assms(2) usd by (rule show_portfolio_valid)
  then have guard: "\<not> flt (balance usd) (fmul a (rate entry))"
    using fmul_nonpos [OF assms(1,4)] by (rule not_flt_nonpos)
  obtain r pd' rd' es where res: "buy_currency pd rd uid c a = (r, pd', rd', es)"
    by (cases "buy_currency pd rd uid c a")
  from res assms(2,3) usd guard have "r \<noteq> Returned False"
    by (auto simp: buy_currency_def Let_def split: sum.splits option.splits if_splits prod.splits)
  with buy_nonpositive [OF assms(1) res] res show ?thesis by simp
qed

lemma sell_nonpositive_raises:
  assumes "fle a (Fin 0)"
    and "show_portfolio pd uid = Inr (Some p)"
    and "get_wallet p c \<noteq> None"
    and "map_of rd (c @ ''_USD'') = Some entry"
  shows "fst (sell_currency pd rd uid c a) = Raised ValueError"
proof -
  from assms(3) obtain w where w: "get_wallet p c = Some w" by auto
  have "\<not> flt (balance w) (Fin 0)" using assms(2) w by (rule show_portfolio_valid)
  then have "\<not> flt (balance w) a" using assms(1) not_flt_nonpos by blast
  with assms w show ?thesis
    by (simp add: sell_currency_def Let_def withdraw_nonpositive)
qed


text \<open>
  Claim C9, as the code has it. For an amount \<open>\<le> 0\<close> neither \<^verbatim>\<open>buy_currency\<close> nor
  \<^verbatim>\<open>sell_currency\<close> succeeds: the call returns \<^verbatim>\<open>False\<close> or raises \<^verbatim>\<open>ValueError\<close>, and
  \<^verbatim>\<open>portfolios_data\<close> is unchanged with no write. It is the \<^verbatim>\<open>ValueError\<close> of the wallet
  whenever the checks before it pass: for a purchase, the portfolio loads, the rate is
  cached and not negative, and there is a USD wallet; for a sale, the portfolio loads,
  the wallet of the currency exists and the rate is cached.
\<close>

theorem nonpositive_amount_fails:
  assumes "fle a (Fin 0)"
  shows "(buy_currency pd rd uid c a = (r, pd', rd', es) \<longrightarrow>
            (r = Returned False \<or> r = Raised ValueError) \<and> pd' = pd \<and> es = [] \<and>
            (\<forall>p entry. show_portfolio pd uid = Inr (Some p) \<and>
                map_of rd (c @ ''_USD'') = Some entry \<and> fle (Fin 0) (rate entry) \<and>
                get_wallet p ''USD'' \<noteq> None \<longrightarrow> r = Raised ValueError)) \<and>
         (sell_currency pd rd uid c a = (r, pd', rd', es) \<longrightarrow>
            (r = Returned False \<or> r = Raised ValueError) \<and> pd' = pd \<and> es = [] \<and>
            (\<forall>p entry. show_portfolio pd uid = Inr (Some p) \<and> get_wallet p c \<noteq> None \<and>
                map_of rd (c @ ''_USD'') = Some entry \<longrightarrow> r = Raised ValueError))"
proof (intro conjI impI allI)
  assume res: "buy_currency pd rd uid c a = (r, pd', rd', es)"
  from buy_nonpositive [OF assms res] show r: "r = Returned False \<or> r = Raised ValueError" .
  then have "r \<noteq> Returned True" by auto
  with buy_currency_failed [OF res] show "pd' = pd" and "es = []" by simp_all
  fix p entry
  assume "show_portfolio pd uid = Inr (Some p) \<and> map_of rd (c @ ''_USD'') = Some entry \<and>
          fle (Fin 0) (rate entry) \<and> get_wallet p ''USD'' \<noteq> None"
  then have "fst (buy_currency pd rd uid c a) = Raised ValueError"
    using assms buy_nonpositive_raises by blast
  with res show "r = Raised ValueError" by simp
next
  assume res: "sell_currency pd rd uid c a = (r, pd', rd', es)"
  from sell_nonpositive [OF assms res] show r: "r = Returned False \<or> r = Raised ValueError" .
  then have "r \<noteq> Returned True" by auto
  with sell_currency_failed [OF res] show "pd' = pd" and "es = []" by simp_all
  fix p entry
  assume "show_portfolio pd uid = Inr (Some p) \<and> get_wallet p c \<noteq> None \<and>
          map_of rd (c @ ''_USD'') = Some entry"
  then have "fst (sell_currency pd rd uid c a) = Raised ValueError"
    using assms sell_nonpositive_raises by blast
  with res show "r = Raised ValueError" by simp
qed

lemma buy_negative_example:
  "buy_currency [\<lparr>user_id = 1, wallets = [(''USD'', Fin 1000)]\<rparr>]
      [(''BTC_USD'', \<lparr>rate = Fin 50000, updated_at = Some 0\<rparr>)] 1 ''BTC'' (Fin (- 1))
   = (Raised ValueError, [\<lparr>user_id = 1, wallets = [(''USD'', Fin 1000)]\<rparr>],
      [(''BTC_USD'', \<lparr>rate = Fin 50000, updated_at = Some 0\<rparr>)], [])"
  by (simp add: eval_trade eval64)

lemma sell_no_wallet_example:
  "sell_currency [\<lparr>user_id = 1, wallets = [(''USD'', Fin 1000)]\<rparr>]
      [(''BTC_USD'', \<lparr>rate = Fin 50000, updated_at = Some 0\<rparr>)] 1 ''BTC'' (Fin (- 1))
   = (Returned False, [\<lparr>user_id = 1, wallets = [(''USD'', Fin 1000)]\<rparr>],
      [(''BTC_USD'', \<lparr>rate = Fin 50000, updated_at = Some 0\<rparr>)], [])"
  by (simp add: eval_trade eval64)

text \<open>
  An instance with the amount \<open>-1\<close>: the purchase raises \<^verbatim>\<open>ValueError\<close>, the sale of a
  currency that is not held returns \<^verbatim>\<open>False\<close>.
\<close>

theorem nonpositive_amount_fails_witness:
  "fle (Fin (- 1)) (Fin 0) \<and>
   buy_currency [\<lparr>user_id = 1, wallets = [(''USD'', Fin 1000)]\<rparr>]
      [(''BTC_USD'', \<lparr>rate = Fin 50000, updated_at = Some 0\<rparr>)] 1 ''BTC'' (Fin (- 1))
   = (Raised ValueError, [\<lparr>user_id = 1, wallets = [(''USD'', Fin 1000)]\<rparr>],
      [(''BTC_USD'', \<lparr>rate = Fin 50000, updated_at = Some 0\<rparr>)], []) \<and>
   sell_currency [\<lparr>user_id = 1, wallets = [(''USD'', Fin 1000)]\<rparr>]
      [(''BTC_USD'', \<lparr>rate = Fin 50000, updated_at = Some 0\<rparr>)] 1 ''BTC'' (Fin (- 1))
   = (Returned False, [\<lparr>user_id = 1, wallets = [(''USD'', Fin 1000)]\<rparr>],
      [(''BTC_USD'', \<lparr>rate = Fin 50000, updated_at = Some 0\<rparr>)], []) \<and>
   show_portfolio [\<lparr>user_id = 1, wallets = [(''USD'', Fin 1000)]\<rparr>] 1
     = Inr (Some \<lparr>Portfolio_user_id = 1,
          Portfolio_wallets = [(''USD'', \<lparr>currency_code = ''USD'', balance = Fin 1000\<rparr>)]\<rparr>) \<and>
   fle (Fin 0) (rate \<lparr>rate = Fin 50000, updated_at = Some 0\<rparr>)"
proof -
  let ?pd = "[\<lparr>user_id = 1, wallets = [(''USD'', Fin 1000)]\<rparr>]"
  let ?rd = "[(''BTC_USD'', \<lparr>rate = Fin 50000, updated_at = Some 0\<rparr>)]"
  have h: "fle (Fin (- 1)) (Fin 0)" by simp
  have sp: "show_portfolio ?pd 1
     = Inr (Some \<lparr>Portfolio_user_id = 1,
          Portfolio_wallets = [(''USD'', \<lparr>currency_code = ''USD'', balance = Fin 1000\<rparr>)]\<rparr>)"
    by (simp add: eval_trade)
  note th1 = nonpositive_amount_fails [OF h, of ?pd ?rd 1 "''BTC''" "Raised ValueError" ?pd ?rd "[]"]
  note th2 = nonpositive_amount_fails [OF h, of ?pd ?rd 1 "''BTC''" "Returned False" ?pd ?rd "[]"]
  from th1 th2 h sp buy_negative_example sell_no_wallet_example show ?thesis by simp
qed

text \<open>
  With no rate cached, a trade of the amount \<open>-1\<close> returns \<^verbatim>\<open>False\<close>: it fails, but not
  with an error for the amount.
\<close>

theorem nonpositive_amount_counterexample:
  "fle (Fin (- 1)) (Fin 0) \<and>
   buy_currency [\<lparr>user_id = 1, wallets = [(''USD'', Fin 1000)]\<rparr>] [] 1 ''BTC'' (Fin (- 1))
     = (Returned False, [\<lparr>user_id = 1, wallets = [(''USD'', Fin 1000)]\<rparr>], [], []) \<and>
   sell_currency [\<lparr>user_id = 1, wallets = [(''USD'', Fin 1000)]\<rparr>] [] 1 ''BTC'' (Fin (- 1))
     = (Returned False, [\<lparr>user_id = 1, wallets = [(''USD'', Fin 1000)]\<rparr>], [], [])"
  by (simp add: eval_trade)

section \<open>The rate of a trade\<close>

lemma buy_currency_same_rate:
  assumes "map_option rate (map_of rd2 (c @ ''_USD'')) = map_option rate (map_of rd (c @ ''_USD''))"
  shows "buy_currency pd rd2 uid c a =
           (case buy_currency pd rd uid c a of (r, pd', rd', es) \<Rightarrow> (r, pd', rd2, es))"
proof (cases "map_of rd (c @ ''_USD'')")
  case None
  with assms have "map_of rd2 (c @ ''_USD'') = None" by simp
  with None show ?thesis
    by (simp add: buy_currency_def split: sum.splits option.splits)
next
  case (Some e)
  with assms obtain e2 where e2: "map_of rd2 (c @ ''_USD'') = Some e2" and r: "rate e2 = rate e"
    by auto
  with Some show ?thesis
    by (simp add: buy_currency_def Let_def split: sum.splits option.splits prod.splits)
qed

lemma sell_currency_same_rate:
  assumes "map_option rate (map_of rd2 (c @ ''_USD'')) = map_option rate (map_of rd (c @ ''_USD''))"
  shows "sell_currency pd rd2 uid c a =
           (case sell_currency pd rd uid c a of (r, pd', rd', es) \<Rightarrow> (r, pd', rd2, es))"
proof (cases "map_of rd (c @ ''_USD'')")
  case None
  with assms have "map_of rd2 (c @ ''_USD'') = None" by simp
  with None show ?thesis
    by (simp add: sell_currency_def split: sum.splits option.splits)
next
  case (Some e)
  with assms obtain e2 where e2: "map_of rd2 (c @ ''_USD'') = Some e2" and r: "rate e2 = rate e"
    by auto
  with Some show ?thesis
    by (simp add: sell_currency_def Let_def split: sum.splits option.splits prod.splits)
qed

lemma trade_effects:
  "list_all is_store_write (snd (snd (snd (buy_currency pd rd uid c a))))"
  "list_all is_store_write (snd (snd (snd (sell_currency pd rd uid c a))))"
proof -
  obtain r pd' rd' es where b: "buy_currency pd rd uid c a = (r, pd', rd', es)"
    by (cases "buy_currency pd rd uid c a")
  have "es = [] \<or> (\<exists>i. es = [StoreWrite i])"
    using buy_currency_failed [OF b] buy_currency_write [of pd rd uid c a pd' rd' es] b
    by (cases "r = Returned True") auto
  with b show "list_all is_store_write (snd (snd (snd (buy_currency pd rd uid c a))))"
    by (auto simp: is_store_write_def)
  obtain r pd' rd' es where s: "sell_currency pd rd uid c a = (r, pd', rd', es)"
    by (cases "sell_currency pd rd uid c a")
  have "es = [] \<or> (\<exists>i. es = [StoreWrite i])"
    using sell_currency_failed [OF s] sell_currency_write [of pd rd uid c a pd' rd' es] s
    by (cases "r = Returned True") auto
  with s show "list_all is_store_write (snd (snd (snd (sell_currency pd rd uid c a))))"
    by (auto simp: is_store_write_def)
qed

lemma trade_without_rate:
  assumes "map_of rd (c @ ''_USD'') = None"
  shows "fst (buy_currency pd rd uid c a) \<noteq> Returned True"
    and "fst (sell_currency pd rd uid c a) \<noteq> Returned True"
  using assms
  by (auto simp: buy_currency_def sell_currency_def split: sum.splits option.splits)

lemma trade_rates_kept:
  "fst (snd (snd (buy_currency pd rd uid c a))) = rd"
  "fst (snd (snd (sell_currency pd rd uid c a))) = rd"
proof -
  show "fst (snd (snd (buy_currency pd rd uid c a))) = rd"
    using buy_currency_rates [of pd rd uid c a]
    by (cases "buy_currency pd rd uid c a") simp
  show "fst (snd (snd (sell_currency pd rd uid c a))) = rd"
    using sell_currency_rates [of pd rd uid c a]
    by (cases "sell_currency pd rd uid c a") simp
qed

section \<open>When a trade succeeds\<close>

lemma fsub_valid:
  "\<not> flt b x \<Longrightarrow> \<not> fle x (Fin 0) \<Longrightarrow> \<not> flt (fsub b x) (Fin 0)"
proof (cases b; cases x)
  fix p q assume "b = Fin p" "x = Fin q" "\<not> flt b x" "\<not> fle x (Fin 0)"
  then have "0 \<le> p - q" by simp
  then have "fle (Fin 0) (round64 (p - q))" by (rule round64_nonneg)
  then show "\<not> flt (fsub b x) (Fin 0)"
    using \<open>b = Fin p\<close> \<open>x = Fin q\<close> by (simp add: fle_not_flt)
qed auto

lemma fadd_valid:
  "\<not> flt b (Fin 0) \<Longrightarrow> \<not> fle x (Fin 0) \<Longrightarrow> \<not> flt (fadd b x) (Fin 0)"
proof (cases b; cases x)
  fix p q assume "b = Fin p" "x = Fin q" "\<not> flt b (Fin 0)" "\<not> fle x (Fin 0)"
  then have "0 \<le> p + q" by simp
  then have "fle (Fin 0) (round64 (p + q))" by (rule round64_nonneg)
  then show "\<not> flt (fadd b x) (Fin 0)"
    using \<open>b = Fin p\<close> \<open>x = Fin q\<close> by (simp add: fle_not_flt)
qed auto

lemma withdraw_succeeds:
  "\<not> flt (balance w) x \<Longrightarrow> \<not> fle x (Fin 0)
     \<Longrightarrow> withdraw w x = (Inr True, w\<lparr>balance := fsub (balance w) x\<rparr>)"
  by (simp add: withdraw_def validate_balance_def fsub_valid)

lemma deposit_succeeds:
  "\<not> flt (balance w) (Fin 0) \<Longrightarrow> \<not> fle x (Fin 0)
     \<Longrightarrow> deposit w x = (Inr (), w\<lparr>balance := fadd (balance w) x\<rparr>)"
  by (simp add: deposit_def validate_balance_def fadd_valid)

lemma buy_currency_succeeds:
  assumes sp: "show_portfolio pd uid = Inr (Some p)"
    and entry: "map_of rd (c @ ''_USD'') = Some entry"
    and usd: "get_wallet p ''USD'' = Some usd"
    and guard: "\<not> flt (balance usd) (fmul a (rate entry))"
    and cost: "\<not> fle (fmul a (rate entry)) (Fin 0)"
    and amount: "\<not> fle a (Fin 0)"
  shows "fst (buy_currency pd rd uid c a) = Returned True"
proof -
  let ?cost = "fmul a (rate entry)"
  let ?usd' = "usd\<lparr>balance := fsub (balance usd) ?cost\<rparr>"
  let ?p1 = "put_wallet p ''USD'' ?usd'"
  have wd: "withdraw usd ?cost = (Inr True, ?usd')"
    using guard cost by (rule withdraw_succeeds)
  have usd'_valid: "\<not> flt (balance ?usd') (Fin 0)"
    using guard cost by (simp add: fsub_valid)
  obtain u2 p2 where p2: "(if map_of (Portfolio_wallets ?p1) c = None
      then add_currency ?p1 c else (Inr (), ?p1)) = (Inr u2, p2)"
    by (cases "map_of (Portfolio_wallets ?p1) c = None") (simp_all add: add_currency_absent)
  have "\<exists>t. get_wallet p2 c = Some t \<and> \<not> flt (balance t) (Fin 0)"
  proof (cases "map_of (Portfolio_wallets ?p1) c")
    case None
    with p2 have "p2 = put_wallet ?p1 c \<lparr>currency_code = c, balance = Fin 0\<rparr>"
      by (simp add: add_currency_absent)
    then show ?thesis by (simp add: get_wallet_def put_wallet_simps)
  next
    case (Some t)
    with p2 have eq: "p2 = ?p1" by simp
    show ?thesis
    proof (cases "c = ''USD''")
      case True
      with eq usd'_valid show ?thesis by (simp add: get_wallet_def put_wallet_simps)
    next
      case False
      with Some have "get_wallet p c = Some t" by (simp add: get_wallet_def put_wallet_simps)
      from show_portfolio_valid [OF sp this] Some eq show ?thesis
        by (simp add: get_wallet_def)
    qed
  qed
  then obtain t where t: "get_wallet p2 c = Some t" and tv: "\<not> flt (balance t) (Fin 0)"
    by blast
  have dp: "deposit t a = (Inr (), t\<lparr>balance := fadd (balance t) a\<rparr>)"
    using tv amount by (rule deposit_succeeds)
  show ?thesis
    using sp entry usd guard wd p2 t dp
    by (simp add: buy_currency_def Let_def split: prod.splits)
qed

lemma sell_currency_succeeds:
  assumes sp: "show_portfolio pd uid = Inr (Some p)"
    and w: "get_wallet p c = Some w"
    and guard: "\<not> flt (balance w) a"
    and entry: "map_of rd (c @ ''_USD'') = Some entry"
    and amount: "\<not> fle a (Fin 0)"
    and revenue: "\<not> fle (fmul a (rate entry)) (Fin 0)"
  shows "fst (sell_currency pd rd uid c a) = Returned True"
proof -
  let ?revenue = "fmul a (rate entry)"
  let ?w' = "w\<lparr>balance := fsub (balance w) a\<rparr>"
  let ?p1 = "put_wallet p c ?w'"
  have wd: "withdraw w a = (Inr True, ?w')"
    using guard amount by (rule withdraw_succeeds)
  have w'_valid: "\<not> flt (balance ?w') (Fin 0)"
    using guard amount by (simp add: fsub_valid)
  obtain u2 p2 where p2: "(case get_wallet ?p1 ''USD'' of
        Some usd_wallet \<Rightarrow> (Inr (), ?p1)
      | None \<Rightarrow> add_currency ?p1 ''USD'') = (Inr u2, p2)"
    by (cases "get_wallet ?p1 ''USD''") (simp_all add: get_wallet_def add_currency_absent)
  have "\<exists>t. get_wallet p2 ''USD'' = Some t \<and> \<not> flt (balance t) (Fin 0)"
  proof (cases "get_wallet ?p1 ''USD''")
    case None
    with p2 have "p2 = put_wallet ?p1 ''USD'' \<lparr>currency_code = ''USD'', balance = Fin 0\<rparr>"
      by (simp add: get_wallet_def add_currency_absent)
    then show ?thesis by (simp add: get_wallet_def put_wallet_simps)
  next
    case (Some t)
    with p2 have eq: "p2 = ?p1" by simp
    show ?thesis
    proof (cases "c = ''USD''")
      case True
      with eq w'_valid show ?thesis by (simp add: get_wallet_def put_wallet_simps)
    next
      case False
      with Some have "get_wallet p ''USD'' = Some t" by (simp add: get_wallet_def put_wallet_simps)
      from show_portfolio_valid [OF sp this] Some eq show ?thesis by simp
    qed
  qed
  then obtain t where t: "get_wallet p2 ''USD'' = Some t" and tv: "\<not> flt (balance t) (Fin 0)"
    by blast
  have dp: "deposit t ?revenue = (Inr (), t\<lparr>balance := fadd (balance t) ?revenue\<rparr>)"
    using tv revenue by (rule deposit_succeeds)
  show ?thesis
    using sp w guard entry wd p2 t dp
    by (simp add: sell_currency_def Let_def split: prod.splits)
qed

lemma buy_currency_True_iff:
  "fst (buy_currency pd rd uid c a) = Returned True \<longleftrightarrow>
     (\<exists>p entry usd. show_portfolio pd uid = Inr (Some p) \<and>
        map_of rd (c @ ''_USD'') = Some entry \<and> get_wallet p ''USD'' = Some usd \<and>
        \<not> flt (balance usd) (fmul a (rate entry)) \<and>
        \<not> fle (fmul a (rate entry)) (Fin 0) \<and> \<not> fle a (Fin 0))"
proof
  assume "fst (buy_currency pd rd uid c a) = Returned True"
  then obtain pd' rd' es where "buy_currency pd rd uid c a = (Returned True, pd', rd', es)"
    by (cases "buy_currency pd rd uid c a") simp
  then obtain p entry usd usd' t t' u1 u3 where
    "show_portfolio pd uid = Inr (Some p)" "map_of rd (c @ ''_USD'') = Some entry"
    "get_wallet p ''USD'' = Some usd" "\<not> flt (balance usd) (fmul a (rate entry))"
    "withdraw usd (fmul a (rate entry)) = (Inr u1, usd')" "deposit t a = (Inr u3, t')"
    by (rule buy_currency_TrueE)
  then show "\<exists>p entry usd. show_portfolio pd uid = Inr (Some p) \<and>
        map_of rd (c @ ''_USD'') = Some entry \<and> get_wallet p ''USD'' = Some usd \<and>
        \<not> flt (balance usd) (fmul a (rate entry)) \<and>
        \<not> fle (fmul a (rate entry)) (Fin 0) \<and> \<not> fle a (Fin 0)"
    using withdraw_Inr deposit_Inr by blast
next
  assume "\<exists>p entry usd. show_portfolio pd uid = Inr (Some p) \<and>
        map_of rd (c @ ''_USD'') = Some entry \<and> get_wallet p ''USD'' = Some usd \<and>
        \<not> flt (balance usd) (fmul a (rate entry)) \<and>
        \<not> fle (fmul a (rate entry)) (Fin 0) \<and> \<not> fle a (Fin 0)"
  then show "fst (buy_currency pd rd uid c a) = Returned True"
    using buy_currency_succeeds by blast
qed

lemma sell_currency_True_iff:
  "fst (sell_currency pd rd uid c a) = Returned True \<longleftrightarrow>
     (\<exists>p entry w. show_portfolio pd uid = Inr (Some p) \<and> get_wallet p c = Some w \<and>
        \<not> flt (balance w) a \<and> map_of rd (c @ ''_USD'') = Some entry \<and>
        \<not> fle a (Fin 0) \<and> \<not> fle (fmul a (rate entry)) (Fin 0))"
proof
  assume "fst (sell_currency pd rd uid c a) = Returned True"
  then obtain pd' rd' es where "sell_currency pd rd uid c a = (Returned True, pd', rd', es)"
    by (cases "sell_currency pd rd uid c a") simp
  then obtain p entry w w' usd usd' u1 u3 where
    "show_portfolio pd uid = Inr (Some p)" "get_wallet p c = Some w"
    "\<not> flt (balance w) a" "map_of rd (c @ ''_USD'') = Some entry"
    "withdraw w a = (Inr u1, w')" "deposit usd (fmul a (rate entry)) = (Inr u3, usd')"
    by (rule sell_currency_TrueE)
  then show "\<exists>p entry w. show_portfolio pd uid = Inr (Some p) \<and> get_wallet p c = Some w \<and>
        \<not> flt (balance w) a \<and> map_of rd (c @ ''_USD'') = Some entry \<and>
        \<not> fle a (Fin 0) \<and> \<not> fle (fmul a (rate entry)) (Fin 0)"
    using withdraw_Inr deposit_Inr by blast
next
  assume "\<exists>p entry w. show_portfolio pd uid = Inr (Some p) \<and> get_wallet p c = Some w \<and>
        \<not> flt (balance w) a \<and> map_of rd (c @ ''_USD'') = Some entry \<and>
        \<not> fle a (Fin 0) \<and> \<not> fle (fmul a (rate entry)) (Fin 0)"
  then show "fst (sell_currency pd rd uid c a) = Returned True"
    using sell_currency_succeeds by blast
qed

text \<open>
  Claim C10. A trade takes its rate from the entry cached under \<^verbatim>\<open>currency_USD\<close> and reads
  nothing of the entry but its \<^verbatim>\<open>"rate"\<close>; the timestamp plays no part.

  \<^item> A purchase returns \<^verbatim>\<open>True\<close> exactly when the portfolio loads, an entry is cached under
    the key, there is a USD wallet whose balance is not below \<^verbatim>\<open>amount * rate\<close>, and the
    cost and the amount are not rejected by the wallets. A sale returns \<^verbatim>\<open>True\<close> exactly
    when the portfolio loads, the wallet of the currency holds the amount, an entry is
    cached, and the amount and the revenue \<^verbatim>\<open>amount * rate\<close> are not rejected. No condition
    mentions the age of the entry, so a trade succeeds on an entry however stale.
  \<^item> For a currency other than USD the USD balance after a purchase is the old one minus
    \<^verbatim>\<open>amount * rate\<close>, and after a sale the old one plus \<^verbatim>\<open>amount * rate\<close>, with the rate of
    the cached entry.
  \<^item> Two caches that agree on the rate under the key give the same result, the same
    stored portfolios and the same effects.
  \<^item> The cache is returned as it was, and the only effects are writes to
    \<^verbatim>\<open>portfolios_data\<close>: the rate source is not called and the cache is not saved.
  \<^item> With no entry under the key the trade does not succeed.
\<close>

theorem trade_rate_from_cache:
  "(fst (buy_currency pd rd uid c a) = Returned True \<longleftrightarrow>
      (\<exists>p entry usd. show_portfolio pd uid = Inr (Some p) \<and>
         map_of rd (c @ ''_USD'') = Some entry \<and> get_wallet p ''USD'' = Some usd \<and>
         \<not> flt (balance usd) (fmul a (rate entry)) \<and>
         \<not> fle (fmul a (rate entry)) (Fin 0) \<and> \<not> fle a (Fin 0))) \<and>
   (fst (sell_currency pd rd uid c a) = Returned True \<longleftrightarrow>
      (\<exists>p entry w. show_portfolio pd uid = Inr (Some p) \<and> get_wallet p c = Some w \<and>
         \<not> flt (balance w) a \<and> map_of rd (c @ ''_USD'') = Some entry \<and>
         \<not> fle a (Fin 0) \<and> \<not> fle (fmul a (rate entry)) (Fin 0))) \<and>
   (c \<noteq> ''USD'' \<and> buy_currency pd rd uid c a = (Returned True, pd', rd', es) \<longrightarrow>
      (\<exists>entry b. map_of rd (c @ ''_USD'') = Some entry \<and>
         stored_balance pd uid ''USD'' = Some b \<and>
         stored_balance pd' uid ''USD'' = Some (fsub b (fmul a (rate entry))))) \<and>
   (c \<noteq> ''USD'' \<and> sell_currency pd rd uid c a = (Returned True, pd', rd', es) \<longrightarrow>
      (\<exists>entry. map_of rd (c @ ''_USD'') = Some entry \<and>
         stored_balance pd' uid ''USD'' =
           Some (fadd (case stored_balance pd uid ''USD'' of None \<Rightarrow> Fin 0 | Some x \<Rightarrow> x)
                      (fmul a (rate entry))))) \<and>
   (map_option rate (map_of rd2 (c @ ''_USD'')) = map_option rate (map_of rd (c @ ''_USD'')) \<longrightarrow>
      buy_currency pd rd2 uid c a =
        (case buy_currency pd rd uid c a of (r, pd', rd', es) \<Rightarrow> (r, pd', rd2, es)) \<and>
      sell_currency pd rd2 uid c a =
        (case sell_currency pd rd uid c a of (r, pd', rd', es) \<Rightarrow> (r, pd', rd2, es))) \<and>
   fst (snd (snd (buy_currency pd rd uid c a))) = rd \<and>
   fst (snd (snd (sell_currency pd rd uid c a))) = rd \<and>
   list_all is_store_write (snd (snd (snd (buy_currency pd rd uid c a)))) \<and>
   list_all is_store_write (snd (snd (snd (sell_currency pd rd uid c a)))) \<and>
   (map_of rd (c @ ''_USD'') = None \<longrightarrow>
      fst (buy_currency pd rd uid c a) \<noteq> Returned True \<and>
      fst (sell_currency pd rd uid c a) \<noteq> Returned True)"
proof -
  have price_buy: "c \<noteq> ''USD'' \<and> buy_currency pd rd uid c a = (Returned True, pd', rd', es) \<longrightarrow>
      (\<exists>entry b. map_of rd (c @ ''_USD'') = Some entry \<and>
         stored_balance pd uid ''USD'' = Some b \<and>
         stored_balance pd' uid ''USD'' = Some (fsub b (fmul a (rate entry))))"
    using buy_moves_balances [of pd rd uid c a pd' rd' es] by blast
  have price_sell: "c \<noteq> ''USD'' \<and> sell_currency pd rd uid c a = (Returned True, pd', rd', es) \<longrightarrow>
      (\<exists>entry. map_of rd (c @ ''_USD'') = Some entry \<and>
         stored_balance pd' uid ''USD'' =
           Some (fadd (case stored_balance pd uid ''USD'' of None \<Rightarrow> Fin 0 | Some x \<Rightarrow> x)
                      (fmul a (rate entry))))"
    using sell_moves_balances [of pd rd uid c a pd' rd' es] by blast
  have same: "map_option rate (map_of rd2 (c @ ''_USD'')) = map_option rate (map_of rd (c @ ''_USD'')) \<longrightarrow>
      buy_currency pd rd2 uid c a =
        (case buy_currency pd rd uid c a of (r, pd', rd', es) \<Rightarrow> (r, pd', rd2, es)) \<and>
      sell_currency pd rd2 uid c a =
        (case sell_currency pd rd uid c a of (r, pd', rd', es) \<Rightarrow> (r, pd', rd2, es))"
    using buy_currency_same_rate [of rd2 c rd pd uid a] sell_currency_same_rate [of rd2 c rd pd uid a]
    by blast
  have none: "map_of rd (c @ ''_USD'') = None \<longrightarrow>
      fst (buy_currency pd rd uid c a) \<noteq> Returned True \<and>
      fst (sell_currency pd rd uid c a) \<noteq> Returned True"
    using trade_without_rate [of rd c pd uid a] by blast
  from buy_currency_True_iff [of pd rd uid c a] sell_currency_True_iff [of pd rd uid c a]
    price_buy price_sell same trade_rates_kept [of pd rd uid c a] trade_effects [of pd rd uid c a]
    none
  show ?thesis by blast
qed

text \<open>
  An instance: the entry \<^verbatim>\<open>BTC_USD = 50000\<close> was fetched at time 0 and is read 6 minutes
  later, past the window. The purchase and the sale of the scenario above both succeed
  and are priced at 50000; the purchase succeeds just the same when the timestamp cannot
  even be read, and does not succeed with an empty cache.
\<close>

theorem trade_rate_from_cache_witness:
  "\<not> is_rate_fresh (updated_at \<lparr>rate = Fin 50000, updated_at = Some 0\<rparr>) 360000000 5 \<and>
   fst (buy_currency [\<lparr>user_id = 1, wallets = [(''USD'', Fin 1000)]\<rparr>]
      [(''BTC_USD'', \<lparr>rate = Fin 50000, updated_at = Some 0\<rparr>)] 1 ''BTC''
      (Fin (5764607523034235 / 576460752303423488))) = Returned True \<and>
   fst (sell_currency [\<lparr>user_id = 1, wallets = [(''USD'', Fin 500),
          (''BTC'', Fin (5764607523034235 / 576460752303423488))]\<rparr>]
      [(''BTC_USD'', \<lparr>rate = Fin 50000, updated_at = Some 0\<rparr>)] 1 ''BTC''
      (Fin (5764607523034235 / 576460752303423488))) = Returned True \<and>
   Some (Fin 500)
     = Some (fsub (Fin 1000) (fmul (Fin (5764607523034235 / 576460752303423488)) (Fin 50000))) \<and>
   Some (Fin 1000)
     = Some (fadd (Fin 500) (fmul (Fin (5764607523034235 / 576460752303423488)) (Fin 50000))) \<and>
   buy_currency [\<lparr>user_id = 1, wallets = [(''USD'', Fin 1000)]\<rparr>]
      [(''BTC_USD'', \<lparr>rate = Fin 50000, updated_at = None\<rparr>)] 1 ''BTC''
      (Fin (5764607523034235 / 576460752303423488))
   = (Returned True,
      [\<lparr>user_id = 1, wallets = [(''USD'', Fin 500),
          (''BTC'', Fin (5764607523034235 / 576460752303423488))]\<rparr>],
      [(''BTC_USD'', \<lparr>rate = Fin 50000, updated_at = None\<rparr>)], [StoreWrite 0]) \<and>
   fst (buy_currency [\<lparr>user_id = 1, wallets = [(''USD'', Fin 1000)]\<rparr>] [] 1 ''BTC''
      (Fin (5764607523034235 / 576460752303423488))) \<noteq> Returned True"
proof -
  let ?a = "Fin (5764607523034235 / 576460752303423488)"
  let ?e = "\<lparr>rate = Fin 50000, updated_at = Some 0\<rparr>"
  let ?pd = "[\<lparr>user_id = 1, wallets = [(''USD'', Fin 1000)]\<rparr>]"
  let ?pd' = "[\<lparr>user_id = 1, wallets = [(''USD'', Fin 500), (''BTC'', ?a)]\<rparr>]"
  let ?pd'' = "[\<lparr>user_id = 1, wallets = [(''USD'', Fin 1000), (''BTC'', Fin 0)]\<rparr>]"
  let ?rd = "[(''BTC_USD'', ?e)]"
  let ?rd2 = "[(''BTC_USD'', \<lparr>rate = Fin 50000, updated_at = None\<rparr>)]"
  let ?usd = "\<lparr>currency_code = ''USD'', balance = Fin 1000\<rparr>"
  let ?p = "\<lparr>Portfolio_user_id = 1, Portfolio_wallets = [(''USD'', ?usd)]\<rparr>"
  let ?btc = "\<lparr>currency_code = ''BTC'', balance = ?a\<rparr>"
  let ?p' = "\<lparr>Portfolio_user_id = 1, Portfolio_wallets =
               [(''USD'', \<lparr>currency_code = ''USD'', balance = Fin 500\<rparr>), (''BTC'', ?btc)]\<rparr>"
  note buy = trade_rate_from_cache [of ?pd ?rd 1 "''BTC''" ?a ?pd' ?rd "[StoreWrite 0]" ?rd2]
  note sell = trade_rate_from_cache [of ?pd' ?rd 1 "''BTC''" ?a ?pd'' ?rd "[StoreWrite 0]" ?rd2]
  note empty = trade_rate_from_cache [of ?pd "[]" 1 "''BTC''" ?a ?pd "[]" "[]" "[]"]
  have stale: "\<not> is_rate_fresh (updated_at ?e) 360000000 5"
    by (simp add: is_rate_fresh_def timedelta_minutes_def)
  have "show_portfolio ?pd 1 = Inr (Some ?p) \<and>
        map_of ?rd (''BTC'' @ ''_USD'') = Some ?e \<and> get_wallet ?p ''USD'' = Some ?usd \<and>
        \<not> flt (balance ?usd) (fmul ?a (rate ?e)) \<and>
        \<not> fle (fmul ?a (rate ?e)) (Fin 0) \<and> \<not> fle ?a (Fin 0)"
    by (simp add: eval_trade eval64)
  with buy have b: "fst (buy_currency ?pd ?rd 1 ''BTC'' ?a) = Returned True" by blast
  have "show_portfolio ?pd' 1 = Inr (Some ?p') \<and> get_wallet ?p' ''BTC'' = Some ?btc \<and>
        \<not> flt (balance ?btc) ?a \<and> map_of ?rd (''BTC'' @ ''_USD'') = Some ?e \<and>
        \<not> fle ?a (Fin 0) \<and> \<not> fle (fmul ?a (rate ?e)) (Fin 0)"
    by (simp add: eval_trade eval64)
  with sell have s: "fst (sell_currency ?pd' ?rd 1 ''BTC'' ?a) = Returned True" by blast
  have ne: "''BTC'' \<noteq> ''USD''" by simp
  from buy ne buy_example
  have "\<exists>entry b. map_of ?rd (''BTC'' @ ''_USD'') = Some entry \<and>
          stored_balance ?pd 1 ''USD'' = Some b \<and>
          stored_balance ?pd' 1 ''USD'' = Some (fsub b (fmul ?a (rate entry)))"
    by blast
  then have pb: "Some (Fin 500) = Some (fsub (Fin 1000) (fmul ?a (Fin 50000)))"
    by (elim exE conjE) (auto simp del: fmul.simps fadd.simps fsub.simps)
  from sell ne sell_example
  have "\<exists>entry. map_of ?rd (''BTC'' @ ''_USD'') = Some entry \<and>
          stored_balance ?pd'' 1 ''USD'' =
            Some (fadd (case stored_balance ?pd' 1 ''USD'' of None \<Rightarrow> Fin 0 | Some x \<Rightarrow> x)
                       (fmul ?a (rate entry)))"
    by blast
  then have ps: "Some (Fin 1000) = Some (fadd (Fin 500) (fmul ?a (Fin 50000)))"
    by (elim exE conjE) (auto simp del: fmul.simps fadd.simps fsub.simps)
  have "map_option rate (map_of ?rd2 (''BTC'' @ ''_USD''))
          = map_option rate (map_of ?rd (''BTC'' @ ''_USD''))" by simp
  with buy have "buy_currency ?pd ?rd2 1 ''BTC'' ?a =
      (case buy_currency ?pd ?rd 1 ''BTC'' ?a of (r, pd', rd', es) \<Rightarrow> (r, pd', ?rd2, es))"
    by blast
  with buy_example have b2: "buy_currency ?pd ?rd2 1 ''BTC'' ?a
      = (Returned True, ?pd', ?rd2, [StoreWrite 0])" by simp
  have "map_of ([] :: rates) (''BTC'' @ ''_USD'') = None" by simp
  with empty have n: "fst (buy_currency ?pd [] 1 ''BTC'' ?a) \<noteq> Returned True" by blast
  from stale b s pb ps b2 n show ?thesis by blast
qed

end
